theory Spec2Isabelle
  imports Main "HOL-Library.Word" "HOL-Library.AList"
begin

section \<open>The reconciliation worker of the ClickHouse operator\<close>

text \<open>
  A shallow embedding of \<^verbatim>\<open>pkg/controller/chi/worker.go\<close>.

  Conventions of the embedding.
  \<^item> A Go struct is a record, a struct embedding (\<^verbatim>\<open>core.Service\<close> embeds
    \<^verbatim>\<open>ObjectMeta\<close>) is a record extension, so \<open>Namespace svc\<close> reads
    \<^verbatim>\<open>svc.Namespace\<close>. Where two Go structs have a field of the same name the
    second one is prefixed by its owner (\<open>HostName\<close>, \<open>HostCHI\<close>).
  \<^item> A Go \<^verbatim>\<open>error\<close> result is an \<open>error option\<close>, \<open>None\<close> being \<^verbatim>\<open>nil\<close>.
  \<^item> Every call that leaves the worker (the Kubernetes client, the Controller, the
    Schemer, the Announcer when it records an event or a status, the runtime error
    handler) appends one \<open>op\<close> to the \<open>oplog\<close> of the state, in program order. What
    such a call returns is a parameter: a field of the record \<open>worker\<close>, a function of
    the operations performed so far.
  \<^item> The memory the worker mutates through pointers is a store in the state: the
    \<^verbatim>\<open>Status\<close> of a CHI object under the address of the object (\<open>chiPtr\<close>), the
    \<^verbatim>\<open>ReconcileAttributes\<close> of a host under the address of the host (\<open>hostPtr\<close>).
  \<^item> Announcer calls that only write a log line (\<^verbatim>\<open>w.a.V(2).Info(...)\<close>, also the
    deferred ones) are not modelled.
  \<^item> A function that can fail to return (a nil dereference, a poll that never ends)
    returns an \<open>option\<close>, \<open>None\<close> meaning that the call does not return.
\<close>

subsection \<open>Errors\<close>

text \<open>A Go error: whether \<^verbatim>\<open>apierrors.IsNotFound\<close> holds of it, and its message.\<close>

datatype error = Error (NotFound: bool) (message: string)

definition IsNotFound :: "error option \<Rightarrow> bool" where
  "IsNotFound err = (case err of None \<Rightarrow> False | Some e \<Rightarrow> NotFound e)"

subsection \<open>Platform objects\<close>

type_synonym int32 = "32 word"
type_synonym goint = "64 word"

record ObjectMeta =
  Namespace :: string
  Name :: string
  ResourceVersion :: string
  DeletionTimestampIsZero :: bool
  Labels :: "string \<rightharpoonup> string"
  Annotations :: "string \<rightharpoonup> string"
  Finalizers :: "string list"

record ServicePort =
  PortName :: string
  Protocol :: string
  Port :: int32
  TargetPort :: int32
  NodePort :: int32

definition ServiceTypeNodePort :: string where
  "ServiceTypeNodePort = ''NodePort''"

definition ServiceTypeLoadBalancer :: string where
  "ServiceTypeLoadBalancer = ''LoadBalancer''"

definition ServiceExternalTrafficPolicyTypeLocal :: string where
  "ServiceExternalTrafficPolicyTypeLocal = ''Local''"

text \<open>\<^verbatim>\<open>core.Service\<close>; the fields of \<^verbatim>\<open>Spec\<close> stand beside those of the metadata.\<close>

record Service = ObjectMeta +
  Type :: string
  Ports :: "ServicePort list"
  ClusterIP :: string
  ExternalTrafficPolicy :: string
  HealthCheckNodePort :: int32

record ConfigMap = ObjectMeta +
  Data :: "string \<rightharpoonup> string"

text \<open>\<^verbatim>\<open>apps.StatefulSet\<close>; the content of its \<^verbatim>\<open>Spec\<close> is opaque.\<close>

record StatefulSet = ObjectMeta +
  StatefulSetSpec :: string

record PersistentVolume = ObjectMeta +
  PersistentVolumeSpec :: string

text \<open>
  \<^verbatim>\<open>resource.Quantity\<close>: a number and the format it is printed in;
  \<^verbatim>\<open>Equal\<close> compares the numbers.
\<close>

datatype Quantity = Quantity (amount: int) (format: string)

definition Equal :: "Quantity \<Rightarrow> Quantity \<Rightarrow> bool" where
  "Equal q1 q2 = (amount q1 = amount q2)"

text \<open>
  \<^verbatim>\<open>core.ResourceList\<close>, a Go map from resource names to quantities: \<open>None\<close> is the
  nil map, the list gives the order in which \<^verbatim>\<open>range\<close> happens to visit the keys.
\<close>

type_synonym ResourceName = string
type_synonym ResourceList = "(ResourceName \<times> Quantity) list option"

record PersistentVolumeClaim = ObjectMeta +
  Requests :: ResourceList

record VolumeMount =
  MountName :: string
  MountPath :: string

record ChiVolumeClaimTemplate =
  TemplateName :: string
  TemplateRequests :: ResourceList

subsection \<open>The ClickHouseInstallation\<close>

text \<open>
  Modelled from the spec: the type declarations of package \<^verbatim>\<open>chop\<close> are not part of the
  sources. A CHI owns clusters, a cluster owns shards, a shard owns hosts; each node
  points back to its CHI. The back pointer \<^verbatim>\<open>host.CHI\<close> is the record \<open>ChiHead\<close>: the
  CHI without its tree, with the address \<open>chiPtr\<close> of the object.
\<close>

datatype ReconcilingPolicy = ReconcilingPolicyUnspecified | ReconcilingPolicyWait | ReconcilingPolicyNoWait

record ChiHead = ObjectMeta +
  chiPtr :: nat
  Policy :: ReconcilingPolicy
  Stopped :: bool
  VolumeClaimTemplates :: "ChiVolumeClaimTemplate list"

record ChiStatus =
  StatusPhase :: string
  AddedHostsCount :: goint
  UpdatedHostsCount :: goint
  DeletedHostsCount :: goint
  DeleteHostsCount :: goint

record ChiHostReconcileAttributes =
  attrAdd :: bool
  attrModify :: bool
  attrUnclear :: bool
  attrMigrate :: bool
  attrReconciled :: bool

record ChiHostAddress =
  AddressNamespace :: string
  ClusterName :: string
  ShardIndex :: goint
  ReplicaIndex :: goint

text \<open>
  Modelled from the spec: what \<^verbatim>\<open>host.GetShard()\<close> gives, the shard where the host is
  located, as far as the worker reads it: its name and the addresses of its hosts.
  \<^verbatim>\<open>HostsCount\<close> is the number of hosts of the shard, a Go \<^verbatim>\<open>int\<close>.
\<close>

record ChiShardView =
  ViewShardName :: string
  ViewHosts :: "nat list"

definition HostsCount :: "ChiShardView \<Rightarrow> int" where
  "HostsCount shard = int (length (ViewHosts shard))"

record ChiHost =
  hostPtr :: nat
  HostName :: string
  Address :: ChiHostAddress
  HostCHI :: ChiHead
  GetShard :: ChiShardView
  HostStatefulSet :: StatefulSet
  VolumeMounts :: "VolumeMount list"
  CanDeleteAllPVCs :: bool

record ChiShard =
  ShardName :: string
  ShardCHI :: ChiHead
  Hosts :: "ChiHost list"

record ChiCluster =
  ClusterNameOf :: string
  ClusterCHI :: ChiHead
  Shards :: "ChiShard list"

record ClickHouseInstallation = ChiHead +
  Clusters :: "ChiCluster list"

text \<open>Modelled from the spec: the reconciling policy of a CHI is one value.\<close>

definition IsReconcilingPolicyWait :: "'a ChiHead_scheme \<Rightarrow> bool" where
  "IsReconcilingPolicyWait chi = (Policy chi = ReconcilingPolicyWait)"

definition IsReconcilingPolicyNoWait :: "'a ChiHead_scheme \<Rightarrow> bool" where
  "IsReconcilingPolicyNoWait chi = (Policy chi = ReconcilingPolicyNoWait)"

definition IsStopped :: "'a ChiHead_scheme \<Rightarrow> bool" where
  "IsStopped chi = Stopped chi"

text \<open>
  Modelled from the spec: the walkers of package \<^verbatim>\<open>chop\<close> visit in declaration order;
  the hosts a walk over a shard, a cluster or a CHI visits.
\<close>

definition hostsOfCluster :: "ChiCluster \<Rightarrow> ChiHost list" where
  "hostsOfCluster cluster = concat (map Hosts (Shards cluster))"

definition hostsOfCHI :: "ClickHouseInstallation \<Rightarrow> ChiHost list" where
  "hostsOfCHI chi = concat (map hostsOfCluster (Clusters chi))"

subsection \<open>Reconcile attributes and generator options\<close>

text \<open>
  Modelled from the spec: the methods of \<^verbatim>\<open>ChiHostReconcileAttributes\<close> set, clear and
  read one flag each.
\<close>

definition NewChiHostReconcileAttributes :: ChiHostReconcileAttributes where
  "NewChiHostReconcileAttributes =
     \<lparr>attrAdd = False, attrModify = False, attrUnclear = False, attrMigrate = False,
      attrReconciled = False\<rparr>"

definition SetAdd :: "ChiHostReconcileAttributes \<Rightarrow> ChiHostReconcileAttributes" where
  "SetAdd a = a\<lparr>attrAdd := True\<rparr>"

definition UnsetAdd :: "ChiHostReconcileAttributes \<Rightarrow> ChiHostReconcileAttributes" where
  "UnsetAdd a = a\<lparr>attrAdd := False\<rparr>"

definition SetModify :: "ChiHostReconcileAttributes \<Rightarrow> ChiHostReconcileAttributes" where
  "SetModify a = a\<lparr>attrModify := True\<rparr>"

definition SetUnclear :: "ChiHostReconcileAttributes \<Rightarrow> ChiHostReconcileAttributes" where
  "SetUnclear a = a\<lparr>attrUnclear := True\<rparr>"

definition SetMigrate :: "ChiHostReconcileAttributes \<Rightarrow> ChiHostReconcileAttributes" where
  "SetMigrate a = a\<lparr>attrMigrate := True\<rparr>"

definition SetReconciled :: "ChiHostReconcileAttributes \<Rightarrow> ChiHostReconcileAttributes" where
  "SetReconciled a = a\<lparr>attrReconciled := True\<rparr>"

definition IsAdd :: "ChiHostReconcileAttributes \<Rightarrow> bool" where
  "IsAdd a = attrAdd a"

definition IsModify :: "ChiHostReconcileAttributes \<Rightarrow> bool" where
  "IsModify a = attrModify a"

definition IsUnclear :: "ChiHostReconcileAttributes \<Rightarrow> bool" where
  "IsUnclear a = attrUnclear a"

definition IsMigrate :: "ChiHostReconcileAttributes \<Rightarrow> bool" where
  "IsMigrate a = attrMigrate a"

text \<open>
  Modelled from the spec: the options of the configuration files generator are
  \<^verbatim>\<open>{SetRemoteServersGeneratorOptions: {ExcludeHost: host, ExcludeReconcileAttributes: mask}}\<close>.
\<close>

record RemoteServersGeneratorOptions =
  optExcludeHost :: "ChiHost option"
  optExcludeReconcileAttributes :: "ChiHostReconcileAttributes option"

record ClickHouseConfigFilesGeneratorOptions =
  RemoteServersOptions :: "RemoteServersGeneratorOptions option"

definition NewRemoteServersGeneratorOptions :: RemoteServersGeneratorOptions where
  "NewRemoteServersGeneratorOptions =
     \<lparr>optExcludeHost = None, optExcludeReconcileAttributes = None\<rparr>"

definition ExcludeHost :: "ChiHost \<Rightarrow> RemoteServersGeneratorOptions \<Rightarrow> RemoteServersGeneratorOptions" where
  "ExcludeHost host opts = opts\<lparr>optExcludeHost := Some host\<rparr>"

definition ExcludeReconcileAttributes ::
  "ChiHostReconcileAttributes \<Rightarrow> RemoteServersGeneratorOptions \<Rightarrow> RemoteServersGeneratorOptions" where
  "ExcludeReconcileAttributes a opts = opts\<lparr>optExcludeReconcileAttributes := Some a\<rparr>"

definition NewClickHouseConfigFilesGeneratorOptions :: ClickHouseConfigFilesGeneratorOptions where
  "NewClickHouseConfigFilesGeneratorOptions = \<lparr>RemoteServersOptions = None\<rparr>"

definition SetRemoteServersGeneratorOptions ::
  "RemoteServersGeneratorOptions \<Rightarrow> ClickHouseConfigFilesGeneratorOptions
     \<Rightarrow> ClickHouseConfigFilesGeneratorOptions" where
  "SetRemoteServersGeneratorOptions r opts = opts\<lparr>RemoteServersOptions := Some r\<rparr>"

subsection \<open>Operations, state and collaborators\<close>

datatype eventAction =
  eventActionReconcile | eventActionCreate | eventActionUpdate | eventActionDelete

datatype eventReason =
  eventReasonReconcileStarted | eventReasonReconcileInProgress
  | eventReasonReconcileCompleted | eventReasonReconcileFailed
  | eventReasonCreateStarted | eventReasonCreateCompleted | eventReasonCreateFailed
  | eventReasonUpdateCompleted | eventReasonUpdateFailed
  | eventReasonDeleteStarted | eventReasonDeleteCompleted | eventReasonDeleteFailed

datatype statusMark = WithStatusAction | WithStatusActions | WithStatusError

text \<open>
  One constructor for each call that leaves the worker. \<open>OpAnnounce\<close> is an Announcer
  chain with \<^verbatim>\<open>WithEvent\<close> or \<^verbatim>\<open>WithStatus...\<close>: the address of the CHI, the event and
  the status marks of the chain. A CHI argument is recorded by its address.
\<close>

datatype op =
    OpAnnounce nat "(eventAction \<times> eventReason) option" "statusMark list"
  | OpHandleError error
  | OpInstallFinalizer nat
  | OpUninstallFinalizer nat
  | OpUpdateCHIObjectStatus nat ChiStatus bool
  | OpDeleteWatch string string
  | OpUpdateWatch string string "string list"
  | OpAddChit string
  | OpUpdateChit string string
  | OpDeleteChit string
  | OpAddChopConfig string
  | OpUpdateChopConfig string string
  | OpDeleteChopConfig string
  | OpGetCHI string string
  | OpGetCHIByObjectMeta ObjectMeta
  | OpGetConfigMap ObjectMeta
  | OpUpdateConfigMap ConfigMap
  | OpCreateConfigMap ConfigMap
  | OpDeleteConfigMapsCHI nat
  | OpGetService ObjectMeta
  | OpUpdateService Service
  | OpCreateService Service
  | OpDeleteServiceIfExists string string
  | OpDeleteServiceCHI nat
  | OpDeleteServiceCluster ChiCluster
  | OpDeleteServiceShard ChiShard
  | OpGetStatefulSet ObjectMeta
  | OpGetStatefulSetByHost ChiHost
  | OpCreateStatefulSet StatefulSet ChiHost
  | OpUpdateStatefulSet StatefulSet StatefulSet ChiHost
  | OpDeleteStatefulSet ChiHost
  | OpDeleteHost ChiHost
  | OpWalkPVs ChiHost
  | OpUpdatePersistentVolume PersistentVolume
  | OpGetPVC string string
  | OpUpdatePVC PersistentVolumeClaim
  | OpCHIDropDnsCache nat
  | OpHostCreateTables ChiHost
  | OpHostDeleteTables ChiHost
  | OpIsHostInCluster ChiHost
  | OpSleep

record state =
  oplog :: "op list"
  statuses :: "nat \<Rightarrow> ChiStatus"
  attrs :: "nat \<Rightarrow> ChiHostReconcileAttributes"
  creator :: "ClickHouseInstallation option"

text \<open>
  A \<^verbatim>\<open>context.Context\<close>, as far as the worker looks at it: whether it is done. A
  context is cancelled from outside the worker, at any time while the worker runs. So
  whether it is done is read at a point of the run, given by the operations performed
  up to that point, as the answers of the collaborators are: a context that is not done
  when a function is entered may be done at a later check of the same call, after an
  operation or a wait. \<^verbatim>\<open>util.IsContextDone\<close> is the reading; it is no operation of its
  own, and two checks with no operation between them read the same (so does the check
  that \<^verbatim>\<open>updateService\<close> repeats before it submits the service).
\<close>

datatype Context = Context (doneAt: "op list \<Rightarrow> bool")

definition IsContextDone :: "Context \<Rightarrow> state \<Rightarrow> bool" where
  "IsContextDone ctx st = doneAt ctx (oplog st)"

text \<open>\<^verbatim>\<open>context.Background()\<close> is never done.\<close>

definition Background :: Context where
  "Background = Context (\<lambda>ops. False)"

text \<open>
  Modelled from the spec: an action plan holds the added, modified and removed
  clusters, shards and hosts; its walkers call the callbacks on every element of the
  corresponding set.
\<close>

record ActionPlan =
  HasActionsToDo :: bool
  GetRemovedHostsNum :: goint
  AddedClusters :: "ChiCluster list"
  AddedShards :: "ChiShard list"
  AddedHosts :: "ChiHost list"
  ModifiedClusters :: "ChiCluster list"
  ModifiedShards :: "ChiShard list"
  ModifiedHosts :: "ChiHost list"
  RemovedClusters :: "ChiCluster list"
  RemovedShards :: "ChiShard list"
  RemovedHosts :: "ChiHost list"

datatype reconcileCmd = reconcileAdd | reconcileUpdate | reconcileDelete | reconcileOther

text \<open>
  The items of the queue: the four commands, and \<open>OtherItem\<close> for a value of any other
  type. A CHI template and an operator configuration are named by a string.
\<close>

datatype item =
    ReconcileCHI reconcileCmd "ClickHouseInstallation option" "ClickHouseInstallation option"
  | ReconcileCHIT reconcileCmd string string
  | ReconcileChopConfig reconcileCmd string string
  | DropDns ObjectMeta
  | OtherItem

text \<open>
  The worker with its collaborators (\<^verbatim>\<open>w.c\<close>, \<^verbatim>\<open>w.schemer\<close>, \<^verbatim>\<open>w.normalizer\<close>, the
  methods of \<^verbatim>\<open>w.creator\<close>, the operator configuration). None of them is part of the
  sources, so each is a parameter. \<open>reply\<close> is the error a call returns that returns
  nothing else; the first argument of a platform read is the operations performed so
  far. The Creator reads the reconcile attributes of the hosts, so its builders take the
  state. \<open>Errorf\<close> is \<^verbatim>\<open>fmt.Errorf\<close> at a format and the one item it is called with.
\<close>

record worker =
  reply :: "op list \<Rightarrow> op \<Rightarrow> error option"
  getCHI :: "op list \<Rightarrow> string \<Rightarrow> string \<Rightarrow> ClickHouseInstallation option \<times> error option"
  GetCHIByObjectMeta :: "op list \<Rightarrow> ObjectMeta \<Rightarrow> ClickHouseInstallation option \<times> error option"
  getConfigMap :: "op list \<Rightarrow> ObjectMeta \<Rightarrow> ConfigMap option \<times> error option"
  getService :: "op list \<Rightarrow> ObjectMeta \<Rightarrow> Service option \<times> error option"
  getStatefulSet :: "op list \<Rightarrow> ObjectMeta \<Rightarrow> StatefulSet option \<times> error option"
  getPVC :: "op list \<Rightarrow> string \<Rightarrow> string \<Rightarrow> PersistentVolumeClaim \<times> error option"
  walkPVs :: "op list \<Rightarrow> ChiHost \<Rightarrow> PersistentVolume list"
  replyIsHostInCluster :: "op list \<Rightarrow> ChiHost \<Rightarrow> bool"
  ReconcileWaitExclude :: bool
  ReconcileWaitInclude :: bool
  CreateTemplatedCHI :: "ClickHouseInstallation \<Rightarrow> bool \<Rightarrow> ClickHouseInstallation \<times> error option"
  NormalizeCHI :: "ClickHouseInstallation option \<Rightarrow> ClickHouseInstallation option \<times> error option"
  NewActionPlan :: "ClickHouseInstallation \<Rightarrow> ClickHouseInstallation \<Rightarrow> ActionPlan"
  ReconcileStart :: "goint \<Rightarrow> ChiStatus \<Rightarrow> ChiStatus"
  ReconcileComplete :: "ChiStatus \<Rightarrow> ChiStatus"
  DeleteStart :: "ChiStatus \<Rightarrow> ChiStatus"
  CreateServiceCHI :: "state \<Rightarrow> Service"
  CreateConfigMapCHICommon :: "state \<Rightarrow> ClickHouseConfigFilesGeneratorOptions option \<Rightarrow> ConfigMap"
  CreateConfigMapCHICommonUsers :: "state \<Rightarrow> ConfigMap"
  CreateServiceCluster :: "state \<Rightarrow> ChiCluster \<Rightarrow> Service option"
  CreateServiceShard :: "state \<Rightarrow> ChiShard \<Rightarrow> Service option"
  CreateConfigMapHost :: "state \<Rightarrow> ChiHost \<Rightarrow> ConfigMap"
  CreateStatefulSet :: "state \<Rightarrow> ChiHost \<Rightarrow> StatefulSet"
  CreateServiceHost :: "state \<Rightarrow> ChiHost \<Rightarrow> Service"
  PreparePersistentVolume :: "state \<Rightarrow> PersistentVolume \<Rightarrow> ChiHost \<Rightarrow> PersistentVolume"
  CreatePVCName :: "ChiHost \<Rightarrow> VolumeMount \<Rightarrow> ChiVolumeClaimTemplate \<Rightarrow> string"
  CreatePodFQDNsOfCHI :: "ClickHouseInstallation \<Rightarrow> string list"
  Errorf :: "string \<Rightarrow> item \<Rightarrow> error"

text \<open>A call that returns an error: the operation is recorded, the collaborator replies.\<close>

definition call :: "worker \<Rightarrow> op \<Rightarrow> state \<Rightarrow> error option \<times> state" where
  "call w c st = (reply w (oplog st) c, st\<lparr>oplog := oplog st @ [c]\<rparr>)"

text \<open>A call whose result the worker does not read.\<close>

definition emit :: "op \<Rightarrow> state \<Rightarrow> state" where
  "emit c st = st\<lparr>oplog := oplog st @ [c]\<rparr>"

definition announce ::
  "'a ChiHead_scheme \<Rightarrow> (eventAction \<times> eventReason) option \<Rightarrow> statusMark list \<Rightarrow> state \<Rightarrow> state" where
  "announce chi ev marks st = emit (OpAnnounce (chiPtr chi) ev marks) st"

definition updateCHIObjectStatus ::
  "worker \<Rightarrow> Context \<Rightarrow> 'a ChiHead_scheme \<Rightarrow> bool \<Rightarrow> state \<Rightarrow> error option \<times> state" where
  "updateCHIObjectStatus w ctx chi tolerateAbsence st =
     call w (OpUpdateCHIObjectStatus (chiPtr chi) (statuses st (chiPtr chi)) tolerateAbsence) st"

subsection \<open>Package util\<close>

text \<open>
  Modelled from the spec: labels, annotations and finalizers are merged preserving the
  existing keys and entries on collision.
\<close>

definition InArray :: "string \<Rightarrow> string list \<Rightarrow> bool" where
  "InArray needle haystack = (needle \<in> set haystack)"

definition MergeStringMapsPreserve :: "(string \<rightharpoonup> string) \<Rightarrow> (string \<rightharpoonup> string) \<Rightarrow> (string \<rightharpoonup> string)" where
  "MergeStringMapsPreserve dst src = (\<lambda>k. case dst k of Some v \<Rightarrow> Some v | None \<Rightarrow> src k)"

definition MergeStringArrays :: "string list \<Rightarrow> string list \<Rightarrow> string list" where
  "MergeStringArrays dst src = fold (\<lambda>s acc. if InArray s acc then acc else acc @ [s]) src dst"

subsection \<open>The finalizer\<close>

definition FinalizerName :: string where
  "FinalizerName = ''finalizer.clickhouseinstallation.altinity.com''"

text \<open>
  \<^verbatim>\<open>ensureFinalizer\<close>: the test whether the finalizer is listed guards a log line only;
  \<^verbatim>\<open>installFinalizer\<close> is called on both branches, its error is logged.
\<close>

definition ensureFinalizer :: "worker \<Rightarrow> 'a ChiHead_scheme \<Rightarrow> state \<Rightarrow> state" where
  "ensureFinalizer w chi st =
     (let st1 = (if InArray FinalizerName (Finalizers chi) then st else st);
          (err, st2) = call w (OpInstallFinalizer (chiPtr chi)) st1
      in st2)"

subsection \<open>ConfigMaps\<close>

definition updateConfigMap ::
  "worker \<Rightarrow> Context \<Rightarrow> 'a ChiHead_scheme \<Rightarrow> ConfigMap \<Rightarrow> state \<Rightarrow> error option \<times> state" where
  "updateConfigMap w ctx chi configMap st =
     (if IsContextDone ctx st then (None, st)
      else
        let (err, st1) = call w (OpUpdateConfigMap configMap) st
        in if err = None
           then (err, announce chi (Some (eventActionUpdate, eventReasonUpdateCompleted))
                        [WithStatusAction] st1)
           else (err, announce chi (Some (eventActionUpdate, eventReasonUpdateFailed))
                        [WithStatusAction, WithStatusError] st1))"

definition createConfigMap ::
  "worker \<Rightarrow> Context \<Rightarrow> 'a ChiHead_scheme \<Rightarrow> ConfigMap \<Rightarrow> state \<Rightarrow> error option \<times> state" where
  "createConfigMap w ctx chi configMap st =
     (if IsContextDone ctx st then (None, st)
      else
        let (err, st1) = call w (OpCreateConfigMap configMap) st
        in if err = None
           then (err, announce chi (Some (eventActionCreate, eventReasonCreateCompleted))
                        [WithStatusAction] st1)
           else (err, announce chi (Some (eventActionCreate, eventReasonCreateFailed))
                        [WithStatusAction, WithStatusError] st1))"

definition reconcileConfigMap ::
  "worker \<Rightarrow> Context \<Rightarrow> 'a ChiHead_scheme \<Rightarrow> ConfigMap \<Rightarrow> bool \<Rightarrow> state \<Rightarrow> error option \<times> state" where
  "reconcileConfigMap w ctx chi configMap update st =
     (if IsContextDone ctx st then (None, st)
      else
        let (curConfigMap, err) = getConfigMap w (oplog st) (ObjectMeta.truncate configMap);
            st1 = emit (OpGetConfigMap (ObjectMeta.truncate configMap)) st
        in if curConfigMap \<noteq> None \<and> \<not> update then (None, st1)
           else
             let (err2, st2) =
                   (if curConfigMap \<noteq> None then updateConfigMap w ctx chi configMap st1
                    else (err, st1));
                 (err3, st3) =
                   (if IsNotFound err2 then createConfigMap w ctx chi configMap st2
                    else (err2, st2));
                 st4 =
                   (if err3 \<noteq> None
                    then announce chi (Some (eventActionReconcile, eventReasonReconcileFailed))
                           [WithStatusAction, WithStatusError] st3
                    else st3)
             in (err3, st4))"

definition reconcileCHIConfigMaps ::
  "worker \<Rightarrow> Context \<Rightarrow> 'a ChiHead_scheme \<Rightarrow> ClickHouseConfigFilesGeneratorOptions option \<Rightarrow> bool
     \<Rightarrow> state \<Rightarrow> error option \<times> state" where
  "reconcileCHIConfigMaps w ctx chi options update st =
     (if IsContextDone ctx st then (None, st)
      else
        let configMapCommon = CreateConfigMapCHICommon w st options;
            (err, st1) = reconcileConfigMap w ctx chi configMapCommon update st
        in if err \<noteq> None then (err, st1)
           else
             let configMapUsers = CreateConfigMapCHICommonUsers w st1;
                 (err2, st2) = reconcileConfigMap w ctx chi configMapUsers update st1
             in if err2 \<noteq> None then (err2, st2) else (None, st2))"

subsection \<open>Services\<close>

text \<open>
  The inner loop of \<^verbatim>\<open>updateService\<close> over the current ports: the first current port
  with the port number of the new port replaces it (\<^verbatim>\<open>*newPort = *curPort; break\<close>).
\<close>

fun reusePort :: "ServicePort list \<Rightarrow> ServicePort \<Rightarrow> ServicePort" where
  "reusePort [] newPort = newPort"
| "reusePort (curPort # curPorts) newPort =
     (if Port newPort = Port curPort then curPort else reusePort curPorts newPort)"

text \<open>
  What \<^verbatim>\<open>updateService\<close> does to \<^verbatim>\<open>newService\<close> before it submits it. The two
  services are distinct objects.
\<close>

definition prepareService :: "Service \<Rightarrow> Service \<Rightarrow> Service" where
  "prepareService curService newService =
     (let s1 = newService\<lparr>ResourceVersion := ResourceVersion curService\<rparr>;
          s2 = (if (Type curService = ServiceTypeNodePort \<and> Type s1 = ServiceTypeNodePort)
                   \<or> (Type curService = ServiceTypeLoadBalancer \<and> Type s1 = ServiceTypeLoadBalancer)
                then s1\<lparr>Ports := map (reusePort (Ports curService)) (Ports s1)\<rparr>
                else s1);
          s3 = s2\<lparr>ClusterIP := ClusterIP curService\<rparr>;
          s4 = (if ExternalTrafficPolicy curService = ServiceExternalTrafficPolicyTypeLocal
                   \<and> ExternalTrafficPolicy s3 = ServiceExternalTrafficPolicyTypeLocal
                then s3\<lparr>HealthCheckNodePort := HealthCheckNodePort curService\<rparr>
                else s3);
          s5 = s4\<lparr>Labels := MergeStringMapsPreserve (Labels s4) (Labels curService)\<rparr>;
          s6 = s5\<lparr>Annotations := MergeStringMapsPreserve (Annotations s5) (Annotations curService)\<rparr>
      in s6\<lparr>Finalizers := MergeStringArrays (Finalizers s6) (Finalizers curService)\<rparr>)"

text \<open>
  \<^verbatim>\<open>updateService\<close> mutates \<^verbatim>\<open>newService\<close> in place; the model returns it beside the
  error.
\<close>

definition updateService ::
  "worker \<Rightarrow> Context \<Rightarrow> 'a ChiHead_scheme \<Rightarrow> Service \<Rightarrow> Service \<Rightarrow> state
     \<Rightarrow> error option \<times> Service \<times> state" where
  "updateService w ctx chi curService newService st =
     (if IsContextDone ctx st then (None, newService, st)
      else
        let newService' = prepareService curService newService
        in if IsContextDone ctx st then (None, newService', st)
           else
             let (err, st1) = call w (OpUpdateService newService') st
             in if err = None
                then (err, newService',
                      announce chi (Some (eventActionUpdate, eventReasonUpdateCompleted))
                        [WithStatusAction] st1)
                else (err, newService',
                      announce chi (Some (eventActionUpdate, eventReasonUpdateFailed))
                        [WithStatusAction, WithStatusError] st1))"

definition createService ::
  "worker \<Rightarrow> Context \<Rightarrow> 'a ChiHead_scheme \<Rightarrow> Service \<Rightarrow> state \<Rightarrow> error option \<times> state" where
  "createService w ctx chi service st =
     (if IsContextDone ctx st then (None, st)
      else
        let (err, st1) = call w (OpCreateService service) st
        in if err = None
           then (err, announce chi (Some (eventActionCreate, eventReasonCreateCompleted))
                        [WithStatusAction] st1)
           else (err, announce chi (Some (eventActionCreate, eventReasonCreateFailed))
                        [WithStatusAction, WithStatusError] st1))"

definition reconcileService ::
  "worker \<Rightarrow> Context \<Rightarrow> 'a ChiHead_scheme \<Rightarrow> Service \<Rightarrow> state \<Rightarrow> error option \<times> state" where
  "reconcileService w ctx chi service st =
     (if IsContextDone ctx st then (None, st)
      else
        let (curService, err) = getService w (oplog st) (ObjectMeta.truncate service);
            st1 = emit (OpGetService (ObjectMeta.truncate service)) st;
            (err2, service2, st2) =
              (case curService of
                 Some cur \<Rightarrow> updateService w ctx chi cur service st1
               | None \<Rightarrow> (err, service, st1));
            (err3, st3) =
              (if err2 \<noteq> None
               then
                 let (ignored, st2') =
                       call w (OpDeleteServiceIfExists (Namespace service2) (Name service2)) st2
                 in createService w ctx chi service2 st2'
               else (err2, st2));
            st4 =
              (if err3 \<noteq> None
               then announce chi (Some (eventActionReconcile, eventReasonReconcileFailed))
                      [WithStatusAction, WithStatusError] st3
               else st3)
        in (err3, st4))"

subsection \<open>StatefulSets\<close>

type_synonym StatefulSetStatus = string

definition statefulSetStatusModified :: StatefulSetStatus where
  "statefulSetStatusModified = ''modified''"

definition statefulSetStatusNew :: StatefulSetStatus where
  "statefulSetStatusNew = ''new''"

definition statefulSetStatusSame :: StatefulSetStatus where
  "statefulSetStatusSame = ''same''"

definition statefulSetStatusUnknown :: StatefulSetStatus where
  "statefulSetStatusUnknown = ''unknown''"

text \<open>Modelled from the spec: the name of the label \<^verbatim>\<open>StatefulSetVersion\<close>.\<close>

definition LabelStatefulSetVersion :: string where
  "LabelStatefulSetVersion = ''StatefulSetVersion''"

text \<open>
  \<^verbatim>\<open>messagediff.DeepDiff\<close> returns \<^verbatim>\<open>equal\<close> when the two specs are equal; the source
  answers \<^verbatim>\<open>modified\<close> in that case.
\<close>

definition getStatefulSetStatus :: "worker \<Rightarrow> StatefulSet \<Rightarrow> state \<Rightarrow> StatefulSetStatus \<times> state" where
  "getStatefulSetStatus w statefulSet st =
     (let (curStatefulSet, err) = getStatefulSet w (oplog st) (ObjectMeta.truncate statefulSet);
          st1 = emit (OpGetStatefulSet (ObjectMeta.truncate statefulSet)) st;
          sameVersion =
            (case curStatefulSet of
               None \<Rightarrow> False
             | Some cur \<Rightarrow>
                 (case Labels cur LabelStatefulSetVersion of
                    None \<Rightarrow> False
                  | Some vcur \<Rightarrow>
                      (case Labels statefulSet LabelStatefulSetVersion of
                         None \<Rightarrow> False
                       | Some vnew \<Rightarrow> vcur = vnew)));
          equal =
            (case curStatefulSet of
               None \<Rightarrow> False
             | Some cur \<Rightarrow> StatefulSetSpec cur = StatefulSetSpec statefulSet)
      in if sameVersion then (statefulSetStatusSame, st1)
         else if equal then (statefulSetStatusModified, st1)
         else if IsNotFound err then (statefulSetStatusNew, st1)
         else (statefulSetStatusUnknown, st1))"

definition updStatus :: "nat \<Rightarrow> (ChiStatus \<Rightarrow> ChiStatus) \<Rightarrow> state \<Rightarrow> state" where
  "updStatus p f st = st\<lparr>statuses := (statuses st)(p := f (statuses st p))\<rparr>"

definition createStatefulSet ::
  "worker \<Rightarrow> Context \<Rightarrow> StatefulSet \<Rightarrow> ChiHost \<Rightarrow> state \<Rightarrow> error option \<times> state" where
  "createStatefulSet w ctx statefulSet host st =
     (if IsContextDone ctx st then (None, st)
      else
        let st1 = announce (HostCHI host) (Some (eventActionCreate, eventReasonCreateStarted))
                    [WithStatusAction] st;
            (err, st2) = call w (OpCreateStatefulSet statefulSet host) st1;
            st3 = updStatus (chiPtr (HostCHI host))
                    (\<lambda>s. s\<lparr>AddedHostsCount := AddedHostsCount s + 1\<rparr>) st2;
            (ignored, st4) = updateCHIObjectStatus w ctx (HostCHI host) False st3
        in if err = None
           then (err, announce (HostCHI host) (Some (eventActionCreate, eventReasonCreateCompleted))
                        [WithStatusAction] st4)
           else (err, announce (HostCHI host) (Some (eventActionCreate, eventReasonCreateFailed))
                        [WithStatusAction, WithStatusError] st4))"

subsection \<open>PersistentVolumes and PersistentVolumeClaims\<close>

text \<open>
  \<^verbatim>\<open>intersect.Simple\<close> of go-intersect: the elements of the first slice that occur in
  the second.
\<close>

definition Simple :: "'a list \<Rightarrow> 'a list \<Rightarrow> 'a list" where
  "Simple a b = filter (\<lambda>x. x \<in> set b) a"

text \<open>
  In \<^verbatim>\<open>reconcileResourcesList\<close> and \<^verbatim>\<open>reconcileResource\<close> the parameter
  \<^verbatim>\<open>pvcResourceList\<close> is the map \<^verbatim>\<open>pvc.Spec.Resources.Requests\<close> itself (a Go map is a
  reference, and \<^verbatim>\<open>reconcileResources\<close> is the only caller), so that the assignment
  \<^verbatim>\<open>pvcResourceList[resourceName] = ...\<close> changes the PVC that is then submitted. The
  model reads and writes the map through \<open>Requests pvc\<close> and returns the PVC.
\<close>

definition reconcileResource ::
  "worker \<Rightarrow> Context \<Rightarrow> PersistentVolumeClaim \<Rightarrow> ResourceList \<Rightarrow> ResourceName \<Rightarrow> state
     \<Rightarrow> PersistentVolumeClaim \<times> state" where
  "reconcileResource w ctx pvc desiredResourceList resourceName st =
     (if IsContextDone ctx st then (pvc, st)
      else
        case Requests pvc of
          None \<Rightarrow> (pvc, st)
        | Some pvcResourceList \<Rightarrow>
            (case desiredResourceList of
               None \<Rightarrow> (pvc, st)
             | Some desired \<Rightarrow>
                 (case map_of pvcResourceList resourceName of
                    None \<Rightarrow> (pvc, st)
                  | Some pvcResourceQuantity \<Rightarrow>
                      (case map_of desired resourceName of
                         None \<Rightarrow> (pvc, st)
                       | Some desiredResourceQuantity \<Rightarrow>
                           if Equal pvcResourceQuantity desiredResourceQuantity then (pvc, st)
                           else
                             let pvc' = pvc\<lparr>Requests :=
                                   Some (AList.update resourceName desiredResourceQuantity
                                           pvcResourceList)\<rparr>;
                                 (err, st1) = call w (OpUpdatePVC pvc') st
                             in (pvc', st1)))))"

definition resourceNamesOf :: "ResourceList \<Rightarrow> ResourceName list" where
  "resourceNamesOf rl = (case rl of None \<Rightarrow> [] | Some l \<Rightarrow> map fst l)"

definition reconcileResourcesList ::
  "worker \<Rightarrow> Context \<Rightarrow> PersistentVolumeClaim \<Rightarrow> ResourceList \<Rightarrow> state
     \<Rightarrow> PersistentVolumeClaim \<times> state" where
  "reconcileResourcesList w ctx pvc desiredResourceList st =
     (if IsContextDone ctx st then (pvc, st)
      else
        let pvcResourceNames = resourceNamesOf (Requests pvc);
            desiredResourceNames = resourceNamesOf desiredResourceList;
            resourceNames = Simple pvcResourceNames desiredResourceNames
        in fold (\<lambda>resourceName (p, s). reconcileResource w ctx p desiredResourceList resourceName s)
             resourceNames (pvc, st))"

definition reconcileResources ::
  "worker \<Rightarrow> Context \<Rightarrow> PersistentVolumeClaim \<Rightarrow> ChiVolumeClaimTemplate \<Rightarrow> state
     \<Rightarrow> PersistentVolumeClaim \<times> state" where
  "reconcileResources w ctx pvc template st =
     (if IsContextDone ctx st then (pvc, st)
      else reconcileResourcesList w ctx pvc (TemplateRequests template) st)"

text \<open>Modelled from the spec: the volume claim template of a CHI with a given name.\<close>

definition GetVolumeClaimTemplate :: "'a ChiHead_scheme \<Rightarrow> string \<Rightarrow> ChiVolumeClaimTemplate option" where
  "GetVolumeClaimTemplate chi name = find (\<lambda>t. TemplateName t = name) (VolumeClaimTemplates chi)"

definition reconcileVolumeMount :: "worker \<Rightarrow> Context \<Rightarrow> ChiHost \<Rightarrow> VolumeMount \<Rightarrow> state \<Rightarrow> state" where
  "reconcileVolumeMount w ctx host volumeMount st =
     (if IsContextDone ctx st then st
      else
        case GetVolumeClaimTemplate (HostCHI host) (MountName volumeMount) of
          None \<Rightarrow> st
        | Some volumeClaimTemplate \<Rightarrow>
            let namespace = AddressNamespace (Address host);
                pvcName = CreatePVCName w host volumeMount volumeClaimTemplate;
                (pvc, err) = getPVC w (oplog st) namespace pvcName;
                st1 = emit (OpGetPVC namespace pvcName) st
            in if err \<noteq> None then st1
               else snd (reconcileResources w ctx pvc volumeClaimTemplate st1))"

definition reconcilePersistentVolumeClaims ::
  "worker \<Rightarrow> Context \<Rightarrow> ChiHost \<Rightarrow> state \<Rightarrow> error option \<times> state" where
  "reconcilePersistentVolumeClaims w ctx host st =
     (if IsContextDone ctx st then (None, st)
      else (None, fold (reconcileVolumeMount w ctx host) (VolumeMounts host) st))"

definition reconcilePersistentVolumes :: "worker \<Rightarrow> Context \<Rightarrow> ChiHost \<Rightarrow> state \<Rightarrow> state" where
  "reconcilePersistentVolumes w ctx host st =
     (if IsContextDone ctx st then st
      else
        let pvs = walkPVs w (oplog st) host;
            st1 = emit (OpWalkPVs host) st
        in fold (\<lambda>pv s. snd (call w (OpUpdatePersistentVolume (PreparePersistentVolume w s pv host)) s))
             pvs st1)"

definition updateStatefulSet ::
  "worker \<Rightarrow> Context \<Rightarrow> StatefulSet \<Rightarrow> StatefulSet \<Rightarrow> ChiHost \<Rightarrow> state \<Rightarrow> error option \<times> state" where
  "updateStatefulSet w ctx curStatefulSet newStatefulSet host st =
     (if IsContextDone ctx st then (None, st)
      else
        let st1 = announce (HostCHI host) (Some (eventActionCreate, eventReasonCreateStarted))
                    [WithStatusAction] st;
            (err, st2) = call w (OpUpdateStatefulSet curStatefulSet newStatefulSet host) st1
        in if err = None
           then
             let st3 = updStatus (chiPtr (HostCHI host))
                         (\<lambda>s. s\<lparr>UpdatedHostsCount := UpdatedHostsCount s + 1\<rparr>) st2;
                 (ignored, st4) = updateCHIObjectStatus w ctx (HostCHI host) False st3
             in (None, announce (HostCHI host) (Some (eventActionUpdate, eventReasonUpdateCompleted))
                         [WithStatusAction] st4)
           else
             let st3 = announce (HostCHI host) (Some (eventActionUpdate, eventReasonUpdateFailed))
                         [WithStatusAction, WithStatusError] st2;
                 (err4, st4) = call w (OpDeleteStatefulSet host) st3;
                 (err5, st5) = reconcilePersistentVolumeClaims w ctx host st4
             in createStatefulSet w ctx newStatefulSet host st5)"

definition reconcileStatefulSet ::
  "worker \<Rightarrow> Context \<Rightarrow> StatefulSet \<Rightarrow> ChiHost \<Rightarrow> state \<Rightarrow> error option \<times> state" where
  "reconcileStatefulSet w ctx newStatefulSet host st =
     (if IsContextDone ctx st then (None, st)
      else
        let (status, st1) = getStatefulSetStatus w (HostStatefulSet host) st
        in if status = statefulSetStatusSame then (None, st1)
           else
             let (curStatefulSet, err) =
                   getStatefulSet w (oplog st1) (ObjectMeta.truncate newStatefulSet);
                 st2 = emit (OpGetStatefulSet (ObjectMeta.truncate newStatefulSet)) st1;
                 (err3, st3) =
                   (case curStatefulSet of
                      Some cur \<Rightarrow> updateStatefulSet w ctx cur newStatefulSet host st2
                    | None \<Rightarrow> (err, st2));
                 (err4, st4) =
                   (if IsNotFound err3 then createStatefulSet w ctx newStatefulSet host st3
                    else (err3, st3));
                 st5 =
                   (if err4 \<noteq> None
                    then announce (HostCHI host)
                           (Some (eventActionReconcile, eventReasonReconcileFailed))
                           [WithStatusAction, WithStatusError] st4
                    else st4)
             in (err4, st5))"

subsection \<open>Excluding a host from the cluster and including it again\<close>

text \<open>
  \<^verbatim>\<open>shouldWaitExcludeHost\<close> determines whether the reconciler should wait for the host to
  be excluded from the cluster.
\<close>

definition shouldWaitExcludeHost :: "worker \<Rightarrow> ChiHost \<Rightarrow> StatefulSetStatus \<Rightarrow> bool" where
  "shouldWaitExcludeHost w host status =
     (if status = statefulSetStatusNew \<or> status = statefulSetStatusSame then False
      else if HostsCount (GetShard host) = 1 then False
      else if IsReconcilingPolicyWait (HostCHI host) then True
      else if IsReconcilingPolicyNoWait (HostCHI host) then False
      else if \<not> ReconcileWaitExclude w then False
      else True)"

definition shouldWaitIncludeHost :: "worker \<Rightarrow> ChiHost \<Rightarrow> StatefulSetStatus \<Rightarrow> bool" where
  "shouldWaitIncludeHost w host status =
     (if status = statefulSetStatusNew \<or> status = statefulSetStatusSame then False
      else if HostsCount (GetShard host) = 1 then False
      else if IsReconcilingPolicyWait (HostCHI host) then True
      else if IsReconcilingPolicyNoWait (HostCHI host) then False
      else if ReconcileWaitInclude w = False then False
      else True)"

text \<open>\<^verbatim>\<open>w.schemer.IsHostInCluster\<close>: a query to ClickHouse, answered by the collaborator.\<close>

definition IsHostInCluster :: "worker \<Rightarrow> Context \<Rightarrow> ChiHost \<Rightarrow> state \<Rightarrow> bool \<times> state" where
  "IsHostInCluster w ctx host st =
     (replyIsHostInCluster w (oplog st) host, emit (OpIsHostInCluster host) st)"

text \<open>
  Modelled from the spec: \<^verbatim>\<open>pollHostContext\<close> of the Controller is not part of the
  sources. The spec: all waits go through a single helper that loops at a bounded
  interval until the predicate is true or the context is done; a context-done check is
  evaluated at the entry of every helper and inside every polling loop; on cancellation
  a helper returns a nil error. The loop may run forever, which is the value \<open>None\<close>.
  The options argument, \<^verbatim>\<open>nil\<close> at both call sites, is left out.
\<close>

partial_function (option) pollHostContext ::
  "worker \<Rightarrow> Context \<Rightarrow> ChiHost \<Rightarrow> (Context \<Rightarrow> ChiHost \<Rightarrow> state \<Rightarrow> bool \<times> state) \<Rightarrow> state
     \<Rightarrow> (error option \<times> state) option" where
  "pollHostContext w ctx host f st =
     (if IsContextDone ctx st then Some (None, st)
      else
        case f ctx host st of
          (ok, st1) \<Rightarrow>
            if ok then Some (None, st1)
            else pollHostContext w ctx host f (emit OpSleep st1))"

definition waitHostInCluster ::
  "worker \<Rightarrow> Context \<Rightarrow> ChiHost \<Rightarrow> state \<Rightarrow> (error option \<times> state) option" where
  "waitHostInCluster w ctx host st = pollHostContext w ctx host (IsHostInCluster w) st"

definition waitHostNotInCluster ::
  "worker \<Rightarrow> Context \<Rightarrow> ChiHost \<Rightarrow> state \<Rightarrow> (error option \<times> state) option" where
  "waitHostNotInCluster w ctx host st =
     pollHostContext w ctx host
       (\<lambda>ctx host st. case IsHostInCluster w ctx host st of (b, st1) \<Rightarrow> (\<not> b, st1)) st"

definition excludeOptions :: "ChiHost \<Rightarrow> ClickHouseConfigFilesGeneratorOptions" where
  "excludeOptions host =
     SetRemoteServersGeneratorOptions
       (ExcludeReconcileAttributes (SetAdd NewChiHostReconcileAttributes)
          (ExcludeHost host NewRemoteServersGeneratorOptions))
       NewClickHouseConfigFilesGeneratorOptions"

definition includeOptions :: "ClickHouseConfigFilesGeneratorOptions" where
  "includeOptions =
     SetRemoteServersGeneratorOptions
       (ExcludeReconcileAttributes (SetAdd NewChiHostReconcileAttributes)
          NewRemoteServersGeneratorOptions)
       NewClickHouseConfigFilesGeneratorOptions"

definition excludeHost ::
  "worker \<Rightarrow> Context \<Rightarrow> ChiHost \<Rightarrow> StatefulSetStatus \<Rightarrow> state \<Rightarrow> (error option \<times> state) option" where
  "excludeHost w ctx host status st =
     (if IsContextDone ctx st then Some (None, st)
      else if shouldWaitExcludeHost w host status
      then
        let options = excludeOptions host;
            (ignored, st1) = reconcileCHIConfigMaps w ctx (HostCHI host) (Some options) True st
        in (case waitHostNotInCluster w ctx host st1 of
              None \<Rightarrow> None
            | Some (ignored2, st2) \<Rightarrow> Some (None, st2))
      else Some (None, st))"

definition includeHost ::
  "worker \<Rightarrow> Context \<Rightarrow> ChiHost \<Rightarrow> StatefulSetStatus \<Rightarrow> state \<Rightarrow> (error option \<times> state) option" where
  "includeHost w ctx host status st =
     (let options = includeOptions;
          (ignored, st1) = reconcileCHIConfigMaps w ctx (HostCHI host) (Some options) True st
      in if shouldWaitIncludeHost w host status
         then (case waitHostInCluster w ctx host st1 of
                 None \<Rightarrow> None
               | Some (ignored2, st2) \<Rightarrow> Some (None, st2))
         else Some (None, st1))"

subsection \<open>Reconciling a host, a shard, a cluster and the CHI\<close>

definition updAttrs ::
  "nat \<Rightarrow> (ChiHostReconcileAttributes \<Rightarrow> ChiHostReconcileAttributes) \<Rightarrow> state \<Rightarrow> state" where
  "updAttrs p f st = st\<lparr>attrs := (attrs st)(p := f (attrs st p))\<rparr>"

text \<open>
  The announcement and the call of \<^verbatim>\<open>w.schemer.HostCreateTables\<close>, whose error is
  logged, as they stand in \<^verbatim>\<open>reconcileHost\<close> and in \<^verbatim>\<open>updateCHI\<close>.
\<close>

definition hostCreateTables ::
  "worker \<Rightarrow> Context \<Rightarrow> 'a ChiHead_scheme \<Rightarrow> ChiHost \<Rightarrow> state \<Rightarrow> state" where
  "hostCreateTables w ctx chi host st =
     (let st1 = announce chi (Some (eventActionCreate, eventReasonCreateStarted))
                  [WithStatusAction] st
      in snd (call w (OpHostCreateTables host) st1))"

definition reconcileHost ::
  "worker \<Rightarrow> Context \<Rightarrow> ChiHost \<Rightarrow> state \<Rightarrow> (error option \<times> state) option" where
  "reconcileHost w ctx host st =
     (if IsContextDone ctx st then Some (None, st)
      else
        let st0 = announce (HostCHI host) (Some (eventActionReconcile, eventReasonReconcileStarted))
                    [WithStatusAction] st;
            configMap = CreateConfigMapHost w st0 host;
            statefulSet = CreateStatefulSet w st0 host;
            service = CreateServiceHost w st0 host;
            (status, st1) = getStatefulSetStatus w (HostStatefulSet host) st0
        in
          case excludeHost w ctx host status st1 of
            None \<Rightarrow> None
          | Some (err2, st2) \<Rightarrow>
              if err2 \<noteq> None then Some (err2, st2)
              else
                let (err3, st3) = reconcileConfigMap w ctx (HostCHI host) configMap True st2
                in if err3 \<noteq> None then Some (err3, st3)
                   else
                     let (err4, st4) = reconcileStatefulSet w ctx statefulSet host st3
                     in if err4 \<noteq> None then Some (err4, st4)
                        else
                          let st5 = reconcilePersistentVolumes w ctx host st4;
                              (err6, st6) = reconcileService w ctx (HostCHI host) service st5
                          in if err6 \<noteq> None then Some (err6, st6)
                             else
                               let st7 = updAttrs (hostPtr host) UnsetAdd st6;
                                   st8 = (if IsMigrate (attrs st7 (hostPtr host))
                                          then hostCreateTables w ctx (HostCHI host) host st7
                                          else st7)
                               in
                                 (case includeHost w ctx host status st8 of
                                    None \<Rightarrow> None
                                  | Some (err9, st9) \<Rightarrow>
                                      if err9 \<noteq> None then Some (err9, st9)
                                      else
                                        Some (None,
                                          announce (HostCHI host)
                                            (Some (eventActionReconcile, eventReasonReconcileCompleted))
                                            [WithStatusAction]
                                            (updAttrs (hostPtr host) SetReconciled st9))))"

definition reconcileShard ::
  "worker \<Rightarrow> Context \<Rightarrow> ChiShard \<Rightarrow> state \<Rightarrow> error option \<times> state" where
  "reconcileShard w ctx shard st =
     (if IsContextDone ctx st then (None, st)
      else
        case CreateServiceShard w st shard of
          None \<Rightarrow> (None, st)
        | Some service \<Rightarrow> reconcileService w ctx (ShardCHI shard) service st)"

definition reconcileCluster ::
  "worker \<Rightarrow> Context \<Rightarrow> ChiCluster \<Rightarrow> state \<Rightarrow> error option \<times> state" where
  "reconcileCluster w ctx cluster st =
     (if IsContextDone ctx st then (None, st)
      else
        case CreateServiceCluster w st cluster of
          None \<Rightarrow> (None, st)
        | Some service \<Rightarrow> reconcileService w ctx (ClusterCHI cluster) service st)"

definition reconcileCHIAuxObjectsPreliminary ::
  "worker \<Rightarrow> Context \<Rightarrow> ClickHouseInstallation \<Rightarrow> state \<Rightarrow> error option \<times> state" where
  "reconcileCHIAuxObjectsPreliminary w ctx chi st =
     (if IsContextDone ctx st then (None, st)
      else if IsStopped chi
      then
        let (ignored, st1) = call w (OpDeleteServiceCHI (chiPtr chi)) st
        in reconcileCHIConfigMaps w ctx chi None False st1
      else
        let service = CreateServiceCHI w st;
            (err, st1) = reconcileService w ctx chi service st
        in if err \<noteq> None then (err, st1)
           else reconcileCHIConfigMaps w ctx chi None False st1)"

definition reconcileCHIAuxObjectsFinal ::
  "worker \<Rightarrow> Context \<Rightarrow> ClickHouseInstallation \<Rightarrow> state \<Rightarrow> error option \<times> state" where
  "reconcileCHIAuxObjectsFinal w ctx chi st =
     (if IsContextDone ctx st then (None, st)
      else reconcileCHIConfigMaps w ctx chi None True st)"

text \<open>
  Modelled from the spec: \<^verbatim>\<open>WalkTillError\<close> of package \<^verbatim>\<open>chop\<close> invokes the step
  functions in order (the CHI, then each cluster, its shards and their hosts in
  declaration order, then the CHI again) and stops at the first non-nil error.
\<close>

fun tillError ::
  "('a \<Rightarrow> state \<Rightarrow> (error option \<times> state) option) \<Rightarrow> 'a list \<Rightarrow> state
     \<Rightarrow> (error option \<times> state) option" where
  "tillError f [] st = Some (None, st)"
| "tillError f (x # xs) st =
     (case f x st of
        None \<Rightarrow> None
      | Some (err, st1) \<Rightarrow> if err \<noteq> None then Some (err, st1) else tillError f xs st1)"

definition WalkTillError ::
  "Context \<Rightarrow> ClickHouseInstallation
     \<Rightarrow> (Context \<Rightarrow> ClickHouseInstallation \<Rightarrow> state \<Rightarrow> error option \<times> state)
     \<Rightarrow> (Context \<Rightarrow> ChiCluster \<Rightarrow> state \<Rightarrow> error option \<times> state)
     \<Rightarrow> (Context \<Rightarrow> ChiShard \<Rightarrow> state \<Rightarrow> error option \<times> state)
     \<Rightarrow> (Context \<Rightarrow> ChiHost \<Rightarrow> state \<Rightarrow> (error option \<times> state) option)
     \<Rightarrow> (Context \<Rightarrow> ClickHouseInstallation \<Rightarrow> state \<Rightarrow> error option \<times> state)
     \<Rightarrow> state \<Rightarrow> (error option \<times> state) option" where
  "WalkTillError ctx chi fCHIPreliminary fCluster fShard fHost fCHI st =
     (let shardStep = (\<lambda>shard s.
            case fShard ctx shard s of
              (err, s1) \<Rightarrow>
                if err \<noteq> None then Some (err, s1) else tillError (fHost ctx) (Hosts shard) s1);
          clusterStep = (\<lambda>cluster s.
            case fCluster ctx cluster s of
              (err, s1) \<Rightarrow>
                if err \<noteq> None then Some (err, s1) else tillError shardStep (Shards cluster) s1)
      in
        case fCHIPreliminary ctx chi st of
          (err, st1) \<Rightarrow>
            if err \<noteq> None then Some (err, st1)
            else
              (case tillError clusterStep (Clusters chi) st1 of
                 None \<Rightarrow> None
               | Some (err2, st2) \<Rightarrow>
                   if err2 \<noteq> None then Some (err2, st2)
                   else
                     (case fCHI ctx chi st2 of
                        (err3, st3) \<Rightarrow> if err3 \<noteq> None then Some (err3, st3) else Some (None, st3))))"

definition reconcile ::
  "worker \<Rightarrow> Context \<Rightarrow> ClickHouseInstallation \<Rightarrow> state \<Rightarrow> (error option \<times> state) option" where
  "reconcile w ctx chi st =
     WalkTillError ctx chi
       (reconcileCHIAuxObjectsPreliminary w)
       (reconcileCluster w)
       (reconcileShard w)
       (reconcileHost w)
       (reconcileCHIAuxObjectsFinal w)
       (st\<lparr>creator := Some chi\<rparr>)"

subsection \<open>Deletion\<close>

definition deleteTables :: "worker \<Rightarrow> Context \<Rightarrow> ChiHost \<Rightarrow> state \<Rightarrow> error option \<times> state" where
  "deleteTables w ctx host st =
     (if IsContextDone ctx st then (None, st)
      else if \<not> CanDeleteAllPVCs host then (None, st)
      else
        let (err, st1) = call w (OpHostDeleteTables host) st
        in if err = None
           then (err, announce (HostCHI host) (Some (eventActionDelete, eventReasonDeleteCompleted))
                        [WithStatusAction] st1)
           else (err, announce (HostCHI host) (Some (eventActionDelete, eventReasonDeleteFailed))
                        [WithStatusError] st1))"

definition deleteHost :: "worker \<Rightarrow> Context \<Rightarrow> ChiHost \<Rightarrow> state \<Rightarrow> error option \<times> state" where
  "deleteHost w ctx host st =
     (if IsContextDone ctx st then (None, st)
      else
        let st1 = announce (HostCHI host) (Some (eventActionDelete, eventReasonDeleteStarted))
                    [WithStatusAction] st;
            (err2, st2) = call w (OpGetStatefulSetByHost host) st1
        in if err2 \<noteq> None
           then (None, announce (HostCHI host) (Some (eventActionDelete, eventReasonDeleteCompleted))
                         [WithStatusAction] st2)
           else
             let (err3, st3) = deleteTables w ctx host st2;
                 (err4, st4) = call w (OpDeleteHost host) st3;
                 st5 = updStatus (chiPtr (HostCHI host))
                         (\<lambda>s. s\<lparr>DeletedHostsCount := DeletedHostsCount s + 1\<rparr>) st4;
                 (ignored, st6) = updateCHIObjectStatus w ctx (HostCHI host) True st5
             in if err4 = None
                then (err4, announce (HostCHI host)
                              (Some (eventActionDelete, eventReasonDeleteCompleted))
                              [WithStatusAction] st6)
                else (err4, announce (HostCHI host)
                              (Some (eventActionDelete, eventReasonDeleteFailed))
                              [WithStatusError] st6))"

text \<open>
  Modelled from the spec: \<^verbatim>\<open>WalkHosts\<close>, \<^verbatim>\<open>WalkShards\<close> and \<^verbatim>\<open>WalkClusters\<close> call the
  callback on every element in declaration order; an error of the callback does not
  stop the walk.
\<close>

definition deleteShard :: "worker \<Rightarrow> Context \<Rightarrow> ChiShard \<Rightarrow> state \<Rightarrow> error option \<times> state" where
  "deleteShard w ctx shard st =
     (if IsContextDone ctx st then (None, st)
      else
        let st1 = announce (ShardCHI shard) (Some (eventActionDelete, eventReasonDeleteStarted))
                    [WithStatusAction] st;
            st2 = fold (\<lambda>host s. snd (deleteHost w ctx host s)) (Hosts shard) st1;
            (ignored, st3) = call w (OpDeleteServiceShard shard) st2
        in (None, announce (ShardCHI shard) (Some (eventActionDelete, eventReasonDeleteCompleted))
                    [WithStatusAction] st3))"

definition deleteCluster :: "worker \<Rightarrow> Context \<Rightarrow> ChiCluster \<Rightarrow> state \<Rightarrow> error option \<times> state" where
  "deleteCluster w ctx cluster st =
     (if IsContextDone ctx st then (None, st)
      else
        let st1 = announce (ClusterCHI cluster) (Some (eventActionDelete, eventReasonDeleteStarted))
                    [WithStatusAction] st;
            st2 = fold (\<lambda>shard s. snd (deleteShard w ctx shard s)) (Shards cluster) st1;
            (ignored, st3) = call w (OpDeleteServiceCluster cluster) st2
        in (None, announce (ClusterCHI cluster) (Some (eventActionDelete, eventReasonDeleteCompleted))
                    [WithStatusAction] st3))"

definition deleteCHI ::
  "worker \<Rightarrow> Context \<Rightarrow> ClickHouseInstallation \<Rightarrow> state \<Rightarrow> error option \<times> state" where
  "deleteCHI w ctx chi st =
     (if IsContextDone ctx st then (None, st)
      else
        let st1 = announce chi (Some (eventActionDelete, eventReasonDeleteStarted))
                    [WithStatusAction] st;
            (chi', err) = CreateTemplatedCHI w chi True
        in if err \<noteq> None
           then (err, announce chi' (Some (eventActionDelete, eventReasonDeleteFailed))
                        [WithStatusError] st1)
           else
             let st2 = emit (OpDeleteWatch (Namespace chi') (Name chi')) st1;
                 st3 = fold (\<lambda>cluster s. snd (deleteCluster w ctx cluster s)) (Clusters chi') st2
             in if IsContextDone ctx st3 then (None, st3)
                else
                  let (err4, st4) = call w (OpDeleteConfigMapsCHI (chiPtr chi')) st3;
                      (err5, st5) = call w (OpDeleteServiceCHI (chiPtr chi')) st4
                  in (None, announce chi' (Some (eventActionDelete, eventReasonDeleteCompleted))
                              [WithStatusAction] st5))"

definition finalizeCHI ::
  "worker \<Rightarrow> Context \<Rightarrow> ClickHouseInstallation \<Rightarrow> state \<Rightarrow> error option \<times> state" where
  "finalizeCHI w ctx chi st =
     (if IsContextDone ctx st then (None, st)
      else
        let (cur, err) = getCHI w (oplog st) (Namespace chi) (Name chi);
            st1 = emit (OpGetCHI (Namespace chi) (Name chi)) st
        in if err \<noteq> None \<or> cur = None then (None, st1)
           else if \<not> InArray FinalizerName (Finalizers chi) then (None, st1)
           else
             let st2 = updStatus (chiPtr chi) (DeleteStart w) st1;
                 (err3, st3) = updateCHIObjectStatus w ctx chi True st2
             in if err3 \<noteq> None then (None, st3)
                else
                  let (ignored, st4) = deleteCHI w ctx chi st3;
                      (err5, st5) = call w (OpUninstallFinalizer (chiPtr chi)) st4
                  in (None, st5))"

subsection \<open>The reconcile of a CHI\<close>

text \<open>The zero value \<^verbatim>\<open>&chop.ClickHouseInstallation{}\<close>.\<close>

definition emptyCHI :: ClickHouseInstallation where
  "emptyCHI =
     \<lparr>Namespace = [], Name = [], ResourceVersion = [], DeletionTimestampIsZero = True,
      Labels = Map.empty, Annotations = Map.empty, Finalizers = [],
      chiPtr = 0, Policy = ReconcilingPolicyUnspecified, Stopped = False,
      VolumeClaimTemplates = [], Clusters = []\<rparr>"

definition normalize ::
  "worker \<Rightarrow> ClickHouseInstallation option \<Rightarrow> state \<Rightarrow> ClickHouseInstallation \<times> state" where
  "normalize w chi st =
     (let (chi0, withDefaultCluster) =
            (case chi of None \<Rightarrow> (emptyCHI, False) | Some c \<Rightarrow> (c, True));
          (chi', err) = CreateTemplatedCHI w chi0 withDefaultCluster
      in if err \<noteq> None
         then (chi', announce chi' (Some (eventActionReconcile, eventReasonReconcileFailed))
                       [WithStatusError] st)
         else (chi', st))"

text \<open>
  Modelled from the spec: the walkers of the action plan call the callbacks on every
  element of the corresponding sets.
\<close>

definition WalkAdded ::
  "ActionPlan \<Rightarrow> (ChiCluster \<Rightarrow> state \<Rightarrow> state) \<Rightarrow> (ChiShard \<Rightarrow> state \<Rightarrow> state)
     \<Rightarrow> (ChiHost \<Rightarrow> state \<Rightarrow> state) \<Rightarrow> state \<Rightarrow> state" where
  "WalkAdded plan clusterFunc shardFunc hostFunc st =
     fold hostFunc (AddedHosts plan)
       (fold shardFunc (AddedShards plan) (fold clusterFunc (AddedClusters plan) st))"

definition WalkModified ::
  "ActionPlan \<Rightarrow> (ChiCluster \<Rightarrow> state \<Rightarrow> state) \<Rightarrow> (ChiShard \<Rightarrow> state \<Rightarrow> state)
     \<Rightarrow> (ChiHost \<Rightarrow> state \<Rightarrow> state) \<Rightarrow> state \<Rightarrow> state" where
  "WalkModified plan clusterFunc shardFunc hostFunc st =
     fold hostFunc (ModifiedHosts plan)
       (fold shardFunc (ModifiedShards plan) (fold clusterFunc (ModifiedClusters plan) st))"

definition WalkRemoved ::
  "ActionPlan \<Rightarrow> (ChiCluster \<Rightarrow> state \<Rightarrow> state) \<Rightarrow> (ChiShard \<Rightarrow> state \<Rightarrow> state)
     \<Rightarrow> (ChiHost \<Rightarrow> state \<Rightarrow> state) \<Rightarrow> state \<Rightarrow> state" where
  "WalkRemoved plan clusterFunc shardFunc hostFunc st =
     fold hostFunc (RemovedHosts plan)
       (fold shardFunc (RemovedShards plan) (fold clusterFunc (RemovedClusters plan) st))"

text \<open>A \<^verbatim>\<open>WalkHosts\<close> whose callback changes the reconcile attributes of the host.\<close>

definition WalkHosts :: "ChiHost list \<Rightarrow> (ChiHost \<Rightarrow> state \<Rightarrow> state) \<Rightarrow> state \<Rightarrow> state" where
  "WalkHosts hosts f st = fold f hosts st"

text \<open>
  The callback of the walk of \<^verbatim>\<open>updateCHI\<close> that marks the hosts that are neither added
  nor modified.
\<close>

definition markUnclear :: "ChiHost \<Rightarrow> state \<Rightarrow> state" where
  "markUnclear host s =
     (if IsAdd (attrs s (hostPtr host)) then s
      else if IsModify (attrs s (hostPtr host)) then s
      else updAttrs (hostPtr host) SetUnclear s)"

text \<open>
  The part of \<^verbatim>\<open>updateCHI\<close> that stamps the reconcile attributes: the walks over the
  added and the modified elements of the action plan, and the two walks over the hosts of
  \<^verbatim>\<open>new\<close>. (A third walk over the hosts only writes log lines.)
\<close>

definition stampReconcileAttributes ::
  "bool \<Rightarrow> ActionPlan \<Rightarrow> ClickHouseInstallation \<Rightarrow> state \<Rightarrow> state" where
  "stampReconcileAttributes update actionPlan new st =
     (let st1 = WalkAdded actionPlan
                  (\<lambda>cluster. WalkHosts (hostsOfCluster cluster)
                     (\<lambda>host. updAttrs (hostPtr host) SetAdd))
                  (\<lambda>shard. WalkHosts (Hosts shard) (\<lambda>host. updAttrs (hostPtr host) SetAdd))
                  (\<lambda>host. updAttrs (hostPtr host) SetAdd)
                  st;
          st2 = WalkModified actionPlan
                  (\<lambda>cluster s. s)
                  (\<lambda>shard s. s)
                  (\<lambda>host. updAttrs (hostPtr host) SetModify)
                  st1;
          st3 = WalkHosts (hostsOfCHI new)
                  (\<lambda>host s. if update then updAttrs (hostPtr host) SetMigrate s else s)
                  st2
      in WalkHosts (hostsOfCHI new) markUnclear st3)"

text \<open>
  The part of \<^verbatim>\<open>updateCHI\<close> that follows the stamping of the reconcile attributes: the
  reconcile of the CHI, the creation of the tables on the added hosts, the deletion of
  what the action plan removes, the watch and the completion of the status.
\<close>

definition updateCHIAfterStamping ::
  "worker \<Rightarrow> Context \<Rightarrow> bool \<Rightarrow> ActionPlan \<Rightarrow> ClickHouseInstallation \<Rightarrow> state
     \<Rightarrow> (error option \<times> state) option" where
  "updateCHIAfterStamping w ctx update actionPlan new' st8 =
     (case reconcile w ctx new' st8 of
        None \<Rightarrow> None
      | Some (err9, st9) \<Rightarrow>
          if err9 \<noteq> None
          then Some (None,
                 announce new'
                   (Some (eventActionReconcile, eventReasonReconcileFailed))
                   [WithStatusError] st9)
          else
            let st10 = announce new'
                         (Some (eventActionReconcile, eventReasonReconcileInProgress))
                         [WithStatusAction] st9;
                st11 = WalkAdded actionPlan
                         (\<lambda>cluster s. s)
                         (\<lambda>shard s. s)
                         (\<lambda>host s.
                            if update then hostCreateTables w ctx new' host s
                            else s)
                         st10;
                st12 = announce new'
                         (Some (eventActionReconcile, eventReasonReconcileInProgress))
                         [WithStatusAction] st11;
                st13 = WalkRemoved actionPlan
                         (\<lambda>cluster s. snd (deleteCluster w ctx cluster s))
                         (\<lambda>shard s. snd (deleteShard w ctx shard s))
                         (\<lambda>host s. snd (deleteHost w ctx host s))
                         st12;
                st14 = (if \<not> IsStopped new'
                        then emit (OpUpdateWatch (Namespace new') (Name new')
                                     (CreatePodFQDNsOfCHI w new'))
                               (announce new'
                                  (Some (eventActionReconcile,
                                         eventReasonReconcileInProgress))
                                  [WithStatusAction] st13)
                        else st13);
                st15 = updStatus (chiPtr new') (ReconcileComplete w) st14;
                (ignored, st16) = updateCHIObjectStatus w ctx new' False st15
            in Some (None,
                 announce new'
                   (Some (eventActionReconcile, eventReasonReconcileCompleted))
                   [WithStatusActions] st16))"

text \<open>
  \<^verbatim>\<open>updateCHI\<close>. Where \<^verbatim>\<open>new\<close> is nil and the resource versions are not compared, the
  source dereferences nil: the call does not return.
\<close>

definition updateCHI ::
  "worker \<Rightarrow> Context \<Rightarrow> ClickHouseInstallation option \<Rightarrow> ClickHouseInstallation option \<Rightarrow> state
     \<Rightarrow> (error option \<times> state) option" where
  "updateCHI w ctx old new st =
     (let update = (old \<noteq> None \<and> new \<noteq> None);
          sameVersion =
            (case old of
               None \<Rightarrow> False
             | Some old0 \<Rightarrow>
                 (case new of
                    None \<Rightarrow> False
                  | Some new0 \<Rightarrow> ResourceVersion old0 = ResourceVersion new0))
      in
        if update \<and> sameVersion then Some (None, st)
        else
          case new of
            None \<Rightarrow> None
          | Some new0 \<Rightarrow>
              if \<not> DeletionTimestampIsZero new0 then Some (finalizeCHI w ctx new0 st)
              else
                let st1 = ensureFinalizer w new0 st;
                    (old', st2) = normalize w old st1;
                    (new', st3) = normalize w (Some new0) st2;
                    actionPlan = NewActionPlan w old' new'
                in
                  if \<not> HasActionsToDo actionPlan then Some (None, st3)
                  else
                    let st4 = updStatus (chiPtr new')
                                (ReconcileStart w (GetRemovedHostsNum actionPlan)) st3;
                        (err5, st5) = updateCHIObjectStatus w ctx new' False st4
                    in
                      if err5 \<noteq> None then Some (None, st5)
                      else
                        let st6 = announce new'
                                    (Some (eventActionReconcile, eventReasonReconcileStarted))
                                    [WithStatusAction] st5;
                            st7 = (if IsStopped new'
                                   then emit (OpDeleteWatch (Namespace new') (Name new'))
                                          (announce new'
                                             (Some (eventActionReconcile, eventReasonReconcileInProgress))
                                             [WithStatusAction] st6)
                                   else st6);
                            st8 = stampReconcileAttributes update actionPlan new' st7
                        in
                          updateCHIAfterStamping w ctx update actionPlan new' st8)"

subsection \<open>The worker loop\<close>

definition createCHIFromObjectMeta ::
  "worker \<Rightarrow> ObjectMeta \<Rightarrow> state \<Rightarrow> ClickHouseInstallation option \<times> error option \<times> state" where
  "createCHIFromObjectMeta w objectMeta st =
     (let (chi, err) = GetCHIByObjectMeta w (oplog st) objectMeta;
          st1 = emit (OpGetCHIByObjectMeta objectMeta) st
      in if err \<noteq> None then (None, err, st1)
         else
           let (chi2, err2) = NormalizeCHI w chi
           in if err2 \<noteq> None then (None, err2, st1) else (chi2, None, st1))"

text \<open>\<^verbatim>\<open>utilruntime.HandleError(fmt.Errorf(text, item))\<close>, \<open>text\<close> being the format.\<close>

definition unexpected :: "worker \<Rightarrow> string \<Rightarrow> item \<Rightarrow> state \<Rightarrow> state" where
  "unexpected w text it st = emit (OpHandleError (Errorf w text it)) st"

definition processItem :: "worker \<Rightarrow> Context \<Rightarrow> item \<Rightarrow> state \<Rightarrow> (error option \<times> state) option" where
  "processItem w ctx it st =
     (if IsContextDone ctx st then Some (None, st)
      else
        case it of
          ReconcileCHI cmd old new \<Rightarrow>
            (case cmd of
               reconcileAdd \<Rightarrow> updateCHI w ctx None new st
             | reconcileUpdate \<Rightarrow> updateCHI w ctx old new st
             | reconcileDelete \<Rightarrow>
                 (case old of None \<Rightarrow> None | Some old0 \<Rightarrow> Some (deleteCHI w ctx old0 st))
             | reconcileOther \<Rightarrow> Some (None, unexpected w ''unexpected reconcile - %#v'' it st))
        | ReconcileCHIT cmd old new \<Rightarrow>
            (case cmd of
               reconcileAdd \<Rightarrow> Some (call w (OpAddChit new) st)
             | reconcileUpdate \<Rightarrow> Some (call w (OpUpdateChit old new) st)
             | reconcileDelete \<Rightarrow> Some (call w (OpDeleteChit old) st)
             | reconcileOther \<Rightarrow> Some (None, unexpected w ''unexpected reconcile - %#v'' it st))
        | ReconcileChopConfig cmd old new \<Rightarrow>
            (case cmd of
               reconcileAdd \<Rightarrow> Some (call w (OpAddChopConfig new) st)
             | reconcileUpdate \<Rightarrow> Some (call w (OpUpdateChopConfig old new) st)
             | reconcileDelete \<Rightarrow> Some (call w (OpDeleteChopConfig old) st)
             | reconcileOther \<Rightarrow> Some (None, unexpected w ''unexpected reconcile - %#v'' it st))
        | DropDns initiator \<Rightarrow>
            (case createCHIFromObjectMeta w initiator st of
               (chi, err, st1) \<Rightarrow>
                 if err = None
                 then (case chi of
                         None \<Rightarrow> None
                       | Some c \<Rightarrow> Some (None, snd (call w (OpCHIDropDnsCache (chiPtr c)) st1)))
                 else Some (None, st1))
        | OtherItem \<Rightarrow> Some (None, unexpected w ''unexpected item in the queue - %#v'' it st))"

text \<open>
  The calls on the work queue. The worker holds the queue; \<^verbatim>\<open>processItem\<close> and what it
  calls never touch it, so the calls on the queue are recorded beside the state.
  \<open>QGet\<close> carries what \<^verbatim>\<open>Get\<close> returned: an item, or \<open>None\<close> for the shutdown signal.
  \<open>QAddRateLimited\<close> is how an item would be enqueued again.
\<close>

datatype queueCall = QGet "item option" | QForget item | QDone item | QAddRateLimited item

text \<open>
  \<^verbatim>\<open>run\<close>, the endless work loop, given the items that \<^verbatim>\<open>Get\<close> returns before it signals
  the shutdown. The context is \<^verbatim>\<open>context.Background()\<close>. The wait for the start time
  is not modelled.
\<close>

fun runLoop ::
  "worker \<Rightarrow> Context \<Rightarrow> item list \<Rightarrow> queueCall list \<Rightarrow> state \<Rightarrow> (queueCall list \<times> state) option" where
  "runLoop w ctx [] q st = Some (q @ [QGet None], st)"
| "runLoop w ctx (it # rest) q st =
     (case processItem w ctx it st of
        None \<Rightarrow> None
      | Some (err, st1) \<Rightarrow>
          let st2 = (case err of None \<Rightarrow> st1 | Some e \<Rightarrow> emit (OpHandleError e) st1)
          in runLoop w ctx rest (q @ [QGet (Some it), QForget it, QDone it]) st2)"

definition run :: "worker \<Rightarrow> item list \<Rightarrow> state \<Rightarrow> (queueCall list \<times> state) option" where
  "run w items st = runLoop w Background items [] st"

subsection \<open>Notions used in the statements\<close>

text \<open>The quantity \<^verbatim>\<open>resourceList[resourceName]\<close>, if the map has the key.\<close>

definition resourceQuantity :: "ResourceList \<Rightarrow> ResourceName \<Rightarrow> Quantity option" where
  "resourceQuantity rl name = (case rl of None \<Rightarrow> None | Some l \<Rightarrow> map_of l name)"

text \<open>
  The quantity the spec asks for after the reconcile of a PVC: for a resource name that
  both the PVC and the template list, the desired quantity if the two differ; for any
  other name, what the PVC had.
\<close>

definition expectedQuantity :: "ResourceList \<Rightarrow> ResourceList \<Rightarrow> ResourceName \<Rightarrow> Quantity option" where
  "expectedQuantity pvcResourceList desiredResourceList name =
     (case resourceQuantity pvcResourceList name of
        None \<Rightarrow> None
      | Some pvcResourceQuantity \<Rightarrow>
          (case resourceQuantity desiredResourceList name of
             None \<Rightarrow> Some pvcResourceQuantity
           | Some desiredResourceQuantity \<Rightarrow>
               if Equal pvcResourceQuantity desiredResourceQuantity then Some pvcResourceQuantity
               else Some desiredResourceQuantity))"

text \<open>
  The operations of \<open>n\<close> rounds of a poll that did not end it: the query whether the
  host is in the cluster, and the wait for the next round.
\<close>

definition probes :: "ChiHost \<Rightarrow> nat \<Rightarrow> op list" where
  "probes host n = concat (replicate n [OpIsHostInCluster host, OpSleep])"

text \<open>
  A context that is not done at a state of the worker nor after any further operations.
\<close>

definition notDoneFrom :: "Context \<Rightarrow> state \<Rightarrow> bool" where
  "notDoneFrom ctx st = (\<forall>ops. \<not> doneAt ctx (oplog st @ ops))"

text \<open>
  The hosts that the walk of \<^verbatim>\<open>updateCHI\<close> over the added elements of an action plan
  marks: the hosts of the added clusters, of the added shards, and the added hosts.
\<close>

definition addedHostsOf :: "ActionPlan \<Rightarrow> ChiHost list" where
  "addedHostsOf plan =
     concat (map hostsOfCluster (AddedClusters plan)) @ concat (map Hosts (AddedShards plan))
       @ AddedHosts plan"

text \<open>A result that is nil whenever there is one.\<close>

definition returnsNil :: "(error option \<times> state) option \<Rightarrow> bool" where
  "returnsNil r = (case r of None \<Rightarrow> True | Some (err, st) \<Rightarrow> err = None)"

text \<open>The calls of the runtime error handler among the operations.\<close>

definition isHandleError :: "op \<Rightarrow> bool" where
  "isHandleError c = (case c of OpHandleError e \<Rightarrow> True | _ \<Rightarrow> False)"

subsection \<open>Concrete inputs\<close>

text \<open>The inputs at which the theorems below are instantiated and the code is run.\<close>

text \<open>A live CHI at address 1, policy \<^verbatim>\<open>wait\<close>, that carries the finalizer.\<close>

definition exHead :: ChiHead where
  "exHead =
     \<lparr>Namespace = ''ns'', Name = ''c1'', ResourceVersion = ''2'',
      DeletionTimestampIsZero = True, Labels = Map.empty, Annotations = Map.empty,
      Finalizers = [FinalizerName],
      chiPtr = 1, Policy = ReconcilingPolicyWait, Stopped = False,
      VolumeClaimTemplates = []\<rparr>"

definition exStatefulSet :: StatefulSet where
  "exStatefulSet =
     \<lparr>Namespace = ''ns'', Name = ''sts'', ResourceVersion = ''1'',
      DeletionTimestampIsZero = True, Labels = Map.empty, Annotations = Map.empty,
      Finalizers = [], StatefulSetSpec = ''spec''\<rparr>"

text \<open>A host at address \<open>p\<close> whose shard has the hosts at the addresses \<open>shardHosts\<close>.\<close>

definition exHost :: "nat \<Rightarrow> nat list \<Rightarrow> ChiHost" where
  "exHost p shardHosts =
     \<lparr>hostPtr = p, HostName = ''host'',
      Address = \<lparr>AddressNamespace = ''ns'', ClusterName = ''cluster'', ShardIndex = 0,
                 ReplicaIndex = 0\<rparr>,
      HostCHI = exHead,
      GetShard = \<lparr>ViewShardName = ''shard'', ViewHosts = shardHosts\<rparr>,
      HostStatefulSet = exStatefulSet, VolumeMounts = [], CanDeleteAllPVCs = False\<rparr>"

text \<open>A CHI with one cluster of one shard of two hosts, at the addresses 10 and 11.\<close>

definition exCHI :: ClickHouseInstallation where
  "exCHI =
     \<lparr>Namespace = ''ns'', Name = ''c1'', ResourceVersion = ''2'',
      DeletionTimestampIsZero = True, Labels = Map.empty, Annotations = Map.empty,
      Finalizers = [FinalizerName],
      chiPtr = 1, Policy = ReconcilingPolicyWait, Stopped = False,
      VolumeClaimTemplates = [],
      Clusters =
        [\<lparr>ClusterNameOf = ''cluster'', ClusterCHI = exHead,
          Shards = [\<lparr>ShardName = ''shard'', ShardCHI = exHead,
                     Hosts = [exHost 10 [10, 11], exHost 11 [10, 11]]\<rparr>]\<rparr>]\<rparr>"

definition exService :: "string \<Rightarrow> string \<Rightarrow> ServicePort list \<Rightarrow> Service" where
  "exService name ip ports =
     \<lparr>Namespace = ''ns'', Name = name, ResourceVersion = ''1'',
      DeletionTimestampIsZero = True, Labels = Map.empty, Annotations = Map.empty,
      Finalizers = [],
      Type = ServiceTypeNodePort, Ports = ports, ClusterIP = ip,
      ExternalTrafficPolicy = ServiceExternalTrafficPolicyTypeLocal,
      HealthCheckNodePort = 0\<rparr>"

definition exPort :: "int32 \<Rightarrow> int32 \<Rightarrow> ServicePort" where
  "exPort p n = \<lparr>PortName = ''http'', Protocol = ''TCP'', Port = p, TargetPort = p, NodePort = n\<rparr>"

definition exConfigMap :: "string \<Rightarrow> ConfigMap" where
  "exConfigMap name =
     \<lparr>Namespace = ''ns'', Name = name, ResourceVersion = ''1'',
      DeletionTimestampIsZero = True, Labels = Map.empty, Annotations = Map.empty,
      Finalizers = [], Data = Map.empty\<rparr>"

definition exPVC :: "ResourceList \<Rightarrow> PersistentVolumeClaim" where
  "exPVC requests =
     \<lparr>Namespace = ''ns'', Name = ''pvc'', ResourceVersion = ''1'',
      DeletionTimestampIsZero = True, Labels = Map.empty, Annotations = Map.empty,
      Finalizers = [], Requests = requests\<rparr>"

definition exStatus :: ChiStatus where
  "exStatus =
     \<lparr>StatusPhase = [], AddedHostsCount = 0, UpdatedHostsCount = 0, DeletedHostsCount = 0,
      DeleteHostsCount = 0\<rparr>"

definition exNotFound :: error where
  "exNotFound = Error True ''not found''"

definition exFailure :: error where
  "exFailure = Error False ''failure''"

definition exPlan :: ActionPlan where
  "exPlan =
     \<lparr>HasActionsToDo = True, GetRemovedHostsNum = 0,
      AddedClusters = [], AddedShards = [], AddedHosts = [],
      ModifiedClusters = [], ModifiedShards = [], ModifiedHosts = [exHost 10 [10, 11]],
      RemovedClusters = [], RemovedShards = [], RemovedHosts = []\<rparr>"

text \<open>
  A platform on which nothing exists yet and every call succeeds; a host is reported in
  the cluster until the worker has slept once. An error made by \<^verbatim>\<open>fmt.Errorf\<close> has the
  format as its message.
\<close>

definition exWorker :: worker where
  "exWorker =
     \<lparr>reply = (\<lambda>ops c. None),
      getCHI = (\<lambda>ops namespace name. (None, Some exNotFound)),
      GetCHIByObjectMeta = (\<lambda>ops objectMeta. (None, Some exNotFound)),
      getConfigMap = (\<lambda>ops objectMeta. (None, Some exNotFound)),
      getService = (\<lambda>ops objectMeta. (None, Some exNotFound)),
      getStatefulSet = (\<lambda>ops objectMeta. (None, Some exNotFound)),
      getPVC = (\<lambda>ops namespace name. (exPVC None, Some exNotFound)),
      walkPVs = (\<lambda>ops host. []),
      replyIsHostInCluster = (\<lambda>ops host. OpSleep \<notin> set ops),
      ReconcileWaitExclude = True,
      ReconcileWaitInclude = True,
      CreateTemplatedCHI = (\<lambda>chi withDefaultCluster. (chi, None)),
      NormalizeCHI = (\<lambda>chi. (chi, None)),
      NewActionPlan = (\<lambda>old new. exPlan),
      ReconcileStart = (\<lambda>n s. s),
      ReconcileComplete = (\<lambda>s. s),
      DeleteStart = (\<lambda>s. s),
      CreateServiceCHI = (\<lambda>st. exService ''chi'' [] []),
      CreateConfigMapCHICommon = (\<lambda>st options. exConfigMap ''common''),
      CreateConfigMapCHICommonUsers = (\<lambda>st. exConfigMap ''users''),
      CreateServiceCluster = (\<lambda>st cluster. None),
      CreateServiceShard = (\<lambda>st shard. None),
      CreateConfigMapHost = (\<lambda>st host. exConfigMap ''host''),
      CreateStatefulSet = (\<lambda>st host. exStatefulSet),
      CreateServiceHost = (\<lambda>st host. exService ''host'' [] []),
      PreparePersistentVolume = (\<lambda>st pv host. pv),
      CreatePVCName = (\<lambda>host volumeMount template. ''pvc''),
      CreatePodFQDNsOfCHI = (\<lambda>chi. []),
      Errorf = (\<lambda>text it. Error False text)\<rparr>"

text \<open>The same platform, on which every creation of a Service fails.\<close>

definition exFailingWorker :: worker where
  "exFailingWorker =
     exWorker\<lparr>reply := (\<lambda>ops c. case c of OpCreateService s \<Rightarrow> Some exFailure | _ \<Rightarrow> None)\<rparr>"

definition exState :: state where
  "exState =
     \<lparr>oplog = [], statuses = (\<lambda>p. exStatus), attrs = (\<lambda>p. NewChiHostReconcileAttributes),
      creator = None\<rparr>"

text \<open>
  A context that is done from the start, and a context that is cancelled during the first
  wait of the worker: it is done once the worker has slept.
\<close>

definition Cancelled :: Context where
  "Cancelled = Context (\<lambda>ops. True)"

definition exDeadline :: Context where
  "exDeadline = Context (\<lambda>ops. OpSleep \<in> set ops)"

text \<open>The same platform, on which a host never leaves the cluster.\<close>

definition exStuckWorker :: worker where
  "exStuckWorker = exWorker\<lparr>replyIsHostInCluster := (\<lambda>ops host. True)\<rparr>"

text \<open>The CHI \<open>exCHI\<close> as it was before an update, at its own address.\<close>

definition exOldCHI :: ClickHouseInstallation where
  "exOldCHI = exCHI\<lparr>ResourceVersion := ''1'', chiPtr := 2\<rparr>"

text \<open>The same platform, on which every call that returns an error fails.\<close>

definition exRefusingWorker :: worker where
  "exRefusingWorker = exWorker\<lparr>reply := (\<lambda>ops c. Some exFailure)\<rparr>"

text \<open>The command to reconcile the new CHI \<open>exCHI\<close>, and the command to add a template.\<close>

definition exAddCHI :: item where
  "exAddCHI = ReconcileCHI reconcileAdd None (Some exCHI)"

definition exAddChit :: item where
  "exAddChit = ReconcileCHIT reconcileAdd [] ''template''"

text \<open>A PVC that requests 1Gi of storage, and a template that asks for 2Gi.\<close>

definition exClaim :: PersistentVolumeClaim where
  "exClaim = exPVC (Some [(''storage'', Quantity 1 ''Gi'')])"

definition exTemplate :: ChiVolumeClaimTemplate where
  "exTemplate =
     \<lparr>TemplateName = ''volume'', TemplateRequests = Some [(''storage'', Quantity 2 ''Gi'')]\<rparr>"

text \<open>The current Service with its assigned address and node port, and the new one.\<close>

definition exCurService :: Service where
  "exCurService = exService ''svc'' ''10.0.0.1'' [exPort 8123 30001]"

definition exNewService :: Service where
  "exNewService = exService ''svc'' [] [exPort 8123 0, exPort 9000 0]"

text \<open>
  The state in which \<^verbatim>\<open>updateCHI\<close>, run on \<open>exWorker\<close> and \<open>exState\<close> for the update from
  \<open>exOldCHI\<close> to \<open>exCHI\<close>, has stamped the reconcile attributes: the host at 10, modified
  in \<open>exPlan\<close>, and the host at 11, which the plan does not name.
\<close>

definition exStamped :: state where
  "exStamped =
     \<lparr>oplog =
        [OpInstallFinalizer 1,
         OpUpdateCHIObjectStatus 1 exStatus False,
         OpAnnounce 1 (Some (eventActionReconcile, eventReasonReconcileStarted))
           [WithStatusAction]],
      statuses = (\<lambda>p. exStatus),
      attrs = (\<lambda>p. NewChiHostReconcileAttributes)
        (10 := NewChiHostReconcileAttributes\<lparr>attrModify := True, attrMigrate := True\<rparr>,
         11 := NewChiHostReconcileAttributes\<lparr>attrUnclear := True, attrMigrate := True\<rparr>),
      creator = None\<rparr>"

text \<open>
  The operations of the reconcile of the two common ConfigMaps of \<open>exHead\<close> on the
  platform of \<open>exWorker\<close>, on which they do not exist: each is looked up and created.
\<close>

definition exConfigOps :: "op list" where
  "exConfigOps =
     [OpGetConfigMap (ObjectMeta.truncate (exConfigMap ''common'')),
      OpCreateConfigMap (exConfigMap ''common''),
      OpAnnounce 1 (Some (eventActionCreate, eventReasonCreateCompleted)) [WithStatusAction],
      OpGetConfigMap (ObjectMeta.truncate (exConfigMap ''users'')),
      OpCreateConfigMap (exConfigMap ''users''),
      OpAnnounce 1 (Some (eventActionCreate, eventReasonCreateCompleted)) [WithStatusAction]]"

section \<open>Properties\<close>

subsection \<open>Facts about the state\<close>

lemma attrs_updAttrs:
  "attrs (updAttrs p f st) q = (if q = p then f (attrs st p) else attrs st q)"
  by (simp add: updAttrs_def)





lemma Equal_refl: "Equal q q"
  by (simp add: Equal_def)

subsection \<open>Waiting for the exclusion of a host\<close>

text \<open>
  C1. For a host that is located in its shard (the shard \<^verbatim>\<open>GetShard\<close> returns lists the
  host, so that it has at least one host), and for every StatefulSet status,
  \<^verbatim>\<open>shouldWaitExcludeHost\<close> returns true if and only if the status is neither new nor
  same, the shard has more than one host, and the reconciling policy of the CHI is not
  NoWait while it is Wait or the operator configuration has \<^verbatim>\<open>ReconcileWaitExclude\<close>.
  For a host whose shard has exactly one host it returns false.
\<close>

theorem shouldWaitExcludeHost_iff:
  "(hostPtr host \<in> set (ViewHosts (GetShard host)) \<longrightarrow>
      (shouldWaitExcludeHost w host status \<longleftrightarrow>
         (status \<noteq> statefulSetStatusNew \<and> status \<noteq> statefulSetStatusSame
          \<and> 1 < HostsCount (GetShard host)
          \<and> \<not> IsReconcilingPolicyNoWait (HostCHI host)
          \<and> (IsReconcilingPolicyWait (HostCHI host) \<or> ReconcileWaitExclude w))))
   \<and> (HostsCount (GetShard host) = 1 \<longrightarrow> \<not> shouldWaitExcludeHost w host status)"
proof -
  have pos: "hostPtr host \<in> set (ViewHosts (GetShard host)) \<Longrightarrow> 1 \<le> HostsCount (GetShard host)"
    by (cases "ViewHosts (GetShard host)") (simp_all add: HostsCount_def)
  show ?thesis
    using pos
    by (auto simp: shouldWaitExcludeHost_def IsReconcilingPolicyWait_def
        IsReconcilingPolicyNoWait_def)
qed

theorem shouldWaitExcludeHost_iff_witness:
  "hostPtr (exHost 10 [10, 11]) \<in> set (ViewHosts (GetShard (exHost 10 [10, 11])))
   \<and> shouldWaitExcludeHost exWorker (exHost 10 [10, 11]) statefulSetStatusModified
   \<and> HostsCount (GetShard (exHost 10 [10])) = 1
   \<and> \<not> shouldWaitExcludeHost exWorker (exHost 10 [10]) statefulSetStatusModified"
  using shouldWaitExcludeHost_iff [of "exHost 10 [10, 11]" exWorker statefulSetStatusModified]
    shouldWaitExcludeHost_iff [of "exHost 10 [10]" exWorker statefulSetStatusModified]
  by (simp add: exHost_def exHead_def HostsCount_def IsReconcilingPolicyWait_def
      IsReconcilingPolicyNoWait_def statefulSetStatusModified_def statefulSetStatusNew_def
      statefulSetStatusSame_def)

subsection \<open>The finalizer\<close>

text \<open>
  C9. \<^verbatim>\<open>ensureFinalizer\<close> is to install the finalizer only when the CHI does not list
  it. The code installs it also when it is listed: on a CHI whose finalizers are the
  finalizer name itself, the call of \<^verbatim>\<open>installFinalizer\<close> is made.
\<close>

theorem ensureFinalizer_installs_when_present:
  "InArray FinalizerName (Finalizers exCHI)
   \<and> oplog (ensureFinalizer exWorker exCHI exState) = [OpInstallFinalizer 1]"
  by (simp add: ensureFinalizer_def call_def InArray_def exCHI_def exState_def)

subsection \<open>The reconcile attributes after the walks of updateCHI\<close>

lemma attrs_frame:
  "attrs (snd (call w c st)) = attrs st"
  "attrs (emit c st) = attrs st"
  "attrs (announce chi ev marks st) = attrs st"
  "attrs (updStatus p f st) = attrs st"
  "attrs (snd (updateCHIObjectStatus w ctx chi tolerate st)) = attrs st"
  "attrs (ensureFinalizer w chi st) = attrs st"
  "attrs (snd (normalize w chi0 st)) = attrs st"
  by (simp_all add: call_def emit_def announce_def updStatus_def updateCHIObjectStatus_def
      ensureFinalizer_def normalize_def Let_def split: prod.splits option.splits)

text \<open>A walk that sets one flag on each host it visits.\<close>

lemma attrs_fold_updAttrs:
  assumes "\<And>a. f (f a) = f a"
  shows "attrs (fold (\<lambda>host. updAttrs (hostPtr host) f) hs s) q =
     (if q \<in> hostPtr ` set hs then f (attrs s q) else attrs s q)"
proof (induction hs arbitrary: s)
  case Nil
  then show ?case by simp
next
  case (Cons h hs)
  show ?case
    by (simp add: Cons.IH attrs_updAttrs assms)
qed

lemma fold_skip: "fold (\<lambda>x s. s) xs st = st"
  by (induction xs) simp_all

lemma fold_nested: "fold (\<lambda>x. fold g (h x)) xs st = fold g (concat (map h xs)) st"
  by (induction xs arbitrary: st) simp_all

lemma WalkHosts_fold: "WalkHosts hosts f = fold f hosts"
  by (rule ext) (simp add: WalkHosts_def)

lemma WalkAdded_hosts:
  "WalkAdded plan (\<lambda>cluster. WalkHosts (hostsOfCluster cluster) g)
      (\<lambda>shard. WalkHosts (Hosts shard) g) g st = fold g (addedHostsOf plan) st"
  by (simp add: WalkAdded_def WalkHosts_fold addedHostsOf_def fold_nested)

lemma WalkModified_hosts:
  "WalkModified plan (\<lambda>cluster s. s) (\<lambda>shard s. s) g st = fold g (ModifiedHosts plan) st"
  by (simp add: WalkModified_def fold_skip)

lemma markUnclear_updAttrs:
  "markUnclear host s =
     updAttrs (hostPtr host) (\<lambda>a. if IsAdd a \<or> IsModify a then a else SetUnclear a) s"
  by (simp add: markUnclear_def updAttrs_def)

text \<open>
  The reconcile attributes of a host of \<^verbatim>\<open>new\<close> after the stamping, from those before
  it.
\<close>

lemma stampReconcileAttributes_attrs:
  assumes "host \<in> set (hostsOfCHI new)"
  shows "attrs (stampReconcileAttributes update plan new st) (hostPtr host) =
     (let a0 = attrs st (hostPtr host);
          a1 = (if hostPtr host \<in> hostPtr ` set (addedHostsOf plan) then SetAdd a0 else a0);
          a2 = (if hostPtr host \<in> hostPtr ` set (ModifiedHosts plan) then SetModify a1 else a1);
          a3 = (if update then SetMigrate a2 else a2)
      in if IsAdd a3 \<or> IsModify a3 then a3 else SetUnclear a3)"
proof -
  have member: "hostPtr host \<in> hostPtr ` set (hostsOfCHI new)"
    using assms by simp
  have idem: "\<And>a. SetAdd (SetAdd a) = SetAdd a" "\<And>a. SetModify (SetModify a) = SetModify a"
    "\<And>a. SetMigrate (SetMigrate a) = SetMigrate a"
    "\<And>a. (\<lambda>a. if IsAdd a \<or> IsModify a then a else SetUnclear a)
            (if IsAdd a \<or> IsModify a then a else SetUnclear a) =
          (if IsAdd a \<or> IsModify a then a else SetUnclear a)"
    by (simp_all add: SetAdd_def SetModify_def SetMigrate_def SetUnclear_def IsAdd_def
        IsModify_def)
  have migrate: "fold (\<lambda>host s. if update then updAttrs (hostPtr host) SetMigrate s else s) hs s =
      (if update then fold (\<lambda>host. updAttrs (hostPtr host) SetMigrate) hs s else s)" for hs s
    by (simp add: fold_skip)
  have unclear: "fold markUnclear hs s =
      fold (\<lambda>host. updAttrs (hostPtr host)
              (\<lambda>a. if IsAdd a \<or> IsModify a then a else SetUnclear a)) hs s" for hs s
    by (induction hs arbitrary: s) (simp_all add: markUnclear_updAttrs)
  show ?thesis
    unfolding stampReconcileAttributes_def Let_def WalkAdded_hosts WalkModified_hosts
    unfolding WalkHosts_def migrate unclear
    using member
    by (simp add: attrs_fold_updAttrs [OF idem(1)] attrs_fold_updAttrs [OF idem(2)]
        attrs_fold_updAttrs [OF idem(3)] attrs_fold_updAttrs [OF idem(4)])
qed

text \<open>The flags of the stamped attributes.\<close>

lemma stamped_flags:
  fixes a :: ChiHostReconcileAttributes and added modified update :: bool
  defines "r \<equiv>
     (let a1 = (if added then SetAdd a else a);
          a2 = (if modified then SetModify a1 else a1);
          a3 = (if update then SetMigrate a2 else a2)
      in if IsAdd a3 \<or> IsModify a3 then a3 else SetUnclear a3)"
  shows "IsAdd r = (IsAdd a \<or> added)"
    and "IsModify r = (IsModify a \<or> modified)"
    and "IsMigrate r = (IsMigrate a \<or> update)"
    and "IsUnclear r = (IsUnclear a \<or> \<not> (IsAdd a \<or> added) \<and> \<not> (IsModify a \<or> modified))"
proof -
  have r: "r = a\<lparr>attrAdd := attrAdd a \<or> added, attrModify := attrModify a \<or> modified,
      attrMigrate := attrMigrate a \<or> update,
      attrUnclear := attrUnclear a \<or> \<not> (attrAdd a \<or> added) \<and> \<not> (attrModify a \<or> modified)\<rparr>"
    unfolding r_def Let_def IsAdd_def IsModify_def SetAdd_def SetModify_def SetMigrate_def
      SetUnclear_def
    by (cases added; cases modified; cases update; cases "attrAdd a"; cases "attrModify a") simp_all
  show "IsAdd r = (IsAdd a \<or> added)"
    and "IsModify r = (IsModify a \<or> modified)"
    and "IsMigrate r = (IsMigrate a \<or> update)"
    and "IsUnclear r = (IsUnclear a \<or> \<not> (IsAdd a \<or> added) \<and> \<not> (IsModify a \<or> modified))"
    unfolding r by (simp_all add: IsAdd_def IsModify_def IsMigrate_def IsUnclear_def)
qed

text \<open>
  Where \<^verbatim>\<open>updateCHI\<close> passes its early returns, it stamps the reconcile attributes on
  the state \<open>st7\<close> it has reached and goes on from the stamped state.
\<close>

lemma updateCHI_stamps:
  assumes "\<forall>old0. old = Some old0 \<longrightarrow> ResourceVersion old0 \<noteq> ResourceVersion new0"
    and "DeletionTimestampIsZero new0"
    and "normalize w old (ensureFinalizer w new0 st) = (old', st2)"
    and "normalize w (Some new0) st2 = (new', st3)"
    and "HasActionsToDo (NewActionPlan w old' new')"
    and "updateCHIObjectStatus w ctx new' False
           (updStatus (chiPtr new')
              (ReconcileStart w (GetRemovedHostsNum (NewActionPlan w old' new'))) st3) = (None, st5)"
  shows "updateCHI w ctx old (Some new0) st =
     updateCHIAfterStamping w ctx (old \<noteq> None) (NewActionPlan w old' new') new'
       (stampReconcileAttributes (old \<noteq> None) (NewActionPlan w old' new') new'
          (if IsStopped new'
           then emit (OpDeleteWatch (Namespace new') (Name new'))
                  (announce new' (Some (eventActionReconcile, eventReasonReconcileInProgress))
                     [WithStatusAction]
                     (announce new' (Some (eventActionReconcile, eventReasonReconcileStarted))
                        [WithStatusAction] st5))
           else announce new' (Some (eventActionReconcile, eventReasonReconcileStarted))
                  [WithStatusAction] st5))"
proof (cases old)
  case None
  then show ?thesis
    unfolding updateCHI_def using assms(2-6) by (simp add: Let_def)
next
  case (Some old0)
  then have "ResourceVersion old0 \<noteq> ResourceVersion new0"
    using assms(1) by simp
  then show ?thesis
    unfolding updateCHI_def using Some assms(2-6) by (simp add: Let_def)
qed

text \<open>
  C6. During \<^verbatim>\<open>updateCHI\<close>, once it has passed its early returns (the resource versions
  differ, \<^verbatim>\<open>new\<close> is not being deleted, the action plan has actions to do, the status
  was submitted), the reconcile attributes are stamped and the rest of \<^verbatim>\<open>updateCHI\<close>,
  which begins with the reconcile, runs on the stamped state \<open>st8\<close>. In that state every
  host of the normalized \<^verbatim>\<open>new\<close> has Migrate set when \<^verbatim>\<open>old\<close> and \<^verbatim>\<open>new\<close> are both
  present, and every host on which neither Add nor Modify is set has Unclear set: each
  host is marked Add, Modify or Unclear. Exactly: Add is set if it was set at the entry
  of \<^verbatim>\<open>updateCHI\<close> or the host is among the added elements of the action plan, Modify if
  it was set or the host is among the modified hosts of the plan, Migrate if it was set
  or both CHIs are present, Unclear if it was set or neither Add nor Modify is set.
\<close>

theorem updateCHI_marks:
  assumes "\<forall>old0. old = Some old0 \<longrightarrow> ResourceVersion old0 \<noteq> ResourceVersion new0"
    and "DeletionTimestampIsZero new0"
    and "normalize w old (ensureFinalizer w new0 st) = (old', st2)"
    and "normalize w (Some new0) st2 = (new', st3)"
    and "HasActionsToDo (NewActionPlan w old' new')"
    and "updateCHIObjectStatus w ctx new' False
           (updStatus (chiPtr new')
              (ReconcileStart w (GetRemovedHostsNum (NewActionPlan w old' new'))) st3) = (None, st5)"
  shows "let actionPlan = NewActionPlan w old' new';
             st6 = announce new' (Some (eventActionReconcile, eventReasonReconcileStarted))
                     [WithStatusAction] st5;
             st7 = (if IsStopped new'
                    then emit (OpDeleteWatch (Namespace new') (Name new'))
                           (announce new'
                              (Some (eventActionReconcile, eventReasonReconcileInProgress))
                              [WithStatusAction] st6)
                    else st6);
             st8 = stampReconcileAttributes (old \<noteq> None) actionPlan new' st7
         in updateCHI w ctx old (Some new0) st =
              updateCHIAfterStamping w ctx (old \<noteq> None) actionPlan new' st8
          \<and> (\<forall>host \<in> set (hostsOfCHI new').
                (old \<noteq> None \<longrightarrow> IsMigrate (attrs st8 (hostPtr host)))
              \<and> (\<not> IsAdd (attrs st8 (hostPtr host)) \<and> \<not> IsModify (attrs st8 (hostPtr host))
                   \<longrightarrow> IsUnclear (attrs st8 (hostPtr host)))
              \<and> (IsAdd (attrs st8 (hostPtr host)) \<or> IsModify (attrs st8 (hostPtr host))
                   \<or> IsUnclear (attrs st8 (hostPtr host)))
              \<and> IsAdd (attrs st8 (hostPtr host)) =
                  (IsAdd (attrs st (hostPtr host))
                   \<or> hostPtr host \<in> hostPtr ` set (addedHostsOf actionPlan))
              \<and> IsModify (attrs st8 (hostPtr host)) =
                  (IsModify (attrs st (hostPtr host))
                   \<or> hostPtr host \<in> hostPtr ` set (ModifiedHosts actionPlan))
              \<and> IsMigrate (attrs st8 (hostPtr host)) =
                  (IsMigrate (attrs st (hostPtr host)) \<or> old \<noteq> None)
              \<and> IsUnclear (attrs st8 (hostPtr host)) =
                  (IsUnclear (attrs st (hostPtr host))
                   \<or> \<not> IsAdd (attrs st8 (hostPtr host))
                      \<and> \<not> IsModify (attrs st8 (hostPtr host))))"
proof -
  define actionPlan where "actionPlan = NewActionPlan w old' new'"
  define st6 where "st6 = announce new' (Some (eventActionReconcile, eventReasonReconcileStarted))
                     [WithStatusAction] st5"
  define st7 where "st7 = (if IsStopped new'
                    then emit (OpDeleteWatch (Namespace new') (Name new'))
                           (announce new'
                              (Some (eventActionReconcile, eventReasonReconcileInProgress))
                              [WithStatusAction] st6)
                    else st6)"
  define st8 where "st8 = stampReconcileAttributes (old \<noteq> None) actionPlan new' st7"
  have run: "updateCHI w ctx old (Some new0) st =
              updateCHIAfterStamping w ctx (old \<noteq> None) actionPlan new' st8"
    unfolding st8_def st7_def st6_def actionPlan_def
    by (rule updateCHI_stamps [OF assms])
  have "st2 = snd (normalize w old (ensureFinalizer w new0 st))"
    and "st3 = snd (normalize w (Some new0) st2)"
    and "st5 = snd (updateCHIObjectStatus w ctx new' False
           (updStatus (chiPtr new')
              (ReconcileStart w (GetRemovedHostsNum (NewActionPlan w old' new'))) st3))"
    by (simp_all add: assms(3,4,6))
  then have "attrs st5 = attrs st"
    by (simp add: attrs_frame)
  then have before: "attrs st7 = attrs st"
    by (simp add: st7_def st6_def attrs_frame)
  have marks: "(old \<noteq> None \<longrightarrow> IsMigrate (attrs st8 (hostPtr host)))
              \<and> (\<not> IsAdd (attrs st8 (hostPtr host)) \<and> \<not> IsModify (attrs st8 (hostPtr host))
                   \<longrightarrow> IsUnclear (attrs st8 (hostPtr host)))
              \<and> (IsAdd (attrs st8 (hostPtr host)) \<or> IsModify (attrs st8 (hostPtr host))
                   \<or> IsUnclear (attrs st8 (hostPtr host)))
              \<and> IsAdd (attrs st8 (hostPtr host)) =
                  (IsAdd (attrs st (hostPtr host))
                   \<or> hostPtr host \<in> hostPtr ` set (addedHostsOf actionPlan))
              \<and> IsModify (attrs st8 (hostPtr host)) =
                  (IsModify (attrs st (hostPtr host))
                   \<or> hostPtr host \<in> hostPtr ` set (ModifiedHosts actionPlan))
              \<and> IsMigrate (attrs st8 (hostPtr host)) =
                  (IsMigrate (attrs st (hostPtr host)) \<or> old \<noteq> None)
              \<and> IsUnclear (attrs st8 (hostPtr host)) =
                  (IsUnclear (attrs st (hostPtr host))
                   \<or> \<not> IsAdd (attrs st8 (hostPtr host))
                      \<and> \<not> IsModify (attrs st8 (hostPtr host)))"
    if "host \<in> set (hostsOfCHI new')" for host
  proof -
    have eq: "attrs st8 (hostPtr host) =
      (let a1 = (if hostPtr host \<in> hostPtr ` set (addedHostsOf actionPlan)
                 then SetAdd (attrs st (hostPtr host)) else attrs st (hostPtr host));
           a2 = (if hostPtr host \<in> hostPtr ` set (ModifiedHosts actionPlan)
                 then SetModify a1 else a1);
           a3 = (if old \<noteq> None then SetMigrate a2 else a2)
       in if IsAdd a3 \<or> IsModify a3 then a3 else SetUnclear a3)"
      unfolding st8_def stampReconcileAttributes_attrs [OF that] before
      by (simp add: Let_def)
    show ?thesis
      unfolding eq
      using stamped_flags [where a = "attrs st (hostPtr host)"
          and added = "hostPtr host \<in> hostPtr ` set (addedHostsOf actionPlan)"
          and modified = "hostPtr host \<in> hostPtr ` set (ModifiedHosts actionPlan)"
          and update = "old \<noteq> None"]
      by blast
  qed
  show ?thesis
    unfolding Let_def actionPlan_def [symmetric] st6_def [symmetric] st7_def [symmetric]
      st8_def [symmetric]
    by (rule conjI, rule run, rule ballI, rule marks)
qed

theorem updateCHI_marks_witness:
  "updateCHI exWorker Background (Some exOldCHI) (Some exCHI) exState =
     updateCHIAfterStamping exWorker Background True exPlan exCHI exStamped
   \<and> hostsOfCHI exCHI = [exHost 10 [10, 11], exHost 11 [10, 11]]
   \<and> IsMigrate (attrs exStamped 10) \<and> IsModify (attrs exStamped 10)
   \<and> \<not> IsUnclear (attrs exStamped 10)
   \<and> IsMigrate (attrs exStamped 11) \<and> \<not> IsAdd (attrs exStamped 11)
   \<and> \<not> IsModify (attrs exStamped 11) \<and> IsUnclear (attrs exStamped 11)"
proof -
  let ?st1 = "ensureFinalizer exWorker exCHI exState"
  let ?st5 = "snd (updateCHIObjectStatus exWorker Background exCHI False
                     (updStatus (chiPtr exCHI)
                        (ReconcileStart exWorker (GetRemovedHostsNum exPlan)) ?st1))"
  have version: "\<forall>old0. Some exOldCHI = Some old0 \<longrightarrow> ResourceVersion old0 \<noteq> ResourceVersion exCHI"
    by (simp add: exOldCHI_def exCHI_def)
  have live: "DeletionTimestampIsZero exCHI"
    by (simp add: exCHI_def)
  have n1: "normalize exWorker (Some exOldCHI) ?st1 = (exOldCHI, ?st1)"
    and n2: "normalize exWorker (Some exCHI) ?st1 = (exCHI, ?st1)"
    by (simp_all add: normalize_def exWorker_def)
  have todo: "HasActionsToDo (NewActionPlan exWorker exOldCHI exCHI)"
    by (simp add: exWorker_def exPlan_def)
  have plan: "NewActionPlan exWorker exOldCHI exCHI = exPlan" and running: "\<not> IsStopped exCHI"
    by (simp_all add: exWorker_def IsStopped_def exCHI_def)
  have submitted: "updateCHIObjectStatus exWorker Background exCHI False
      (updStatus (chiPtr exCHI)
         (ReconcileStart exWorker (GetRemovedHostsNum (NewActionPlan exWorker exOldCHI exCHI)))
         ?st1) = (None, ?st5)"
    unfolding plan by (simp add: updateCHIObjectStatus_def call_def exWorker_def)
  have same: "(\<lambda>p. exStatus)(Suc 0 := exStatus) = (\<lambda>p. exStatus)"
    by (rule ext) simp
  have stamped: "stampReconcileAttributes True exPlan exCHI
      (announce exCHI (Some (eventActionReconcile, eventReasonReconcileStarted))
         [WithStatusAction] ?st5) = exStamped"
    by (simp add: stampReconcileAttributes_def WalkAdded_def WalkModified_def WalkHosts_def
        markUnclear_def hostsOfCHI_def hostsOfCluster_def exCHI_def exPlan_def exHost_def
        exState_def updAttrs_def IsAdd_def IsModify_def SetModify_def SetMigrate_def
        SetUnclear_def SetAdd_def NewChiHostReconcileAttributes_def announce_def emit_def
        call_def updateCHIObjectStatus_def updStatus_def ensureFinalizer_def exWorker_def
        exStamped_def same)
  have hosts: "hostsOfCHI exCHI = [exHost 10 [10, 11], exHost 11 [10, 11]]"
    by (simp add: hostsOfCHI_def hostsOfCluster_def exCHI_def)
  have flags: "IsMigrate (attrs exStamped 10) \<and> IsModify (attrs exStamped 10)
   \<and> \<not> IsUnclear (attrs exStamped 10)
   \<and> IsMigrate (attrs exStamped 11) \<and> \<not> IsAdd (attrs exStamped 11)
   \<and> \<not> IsModify (attrs exStamped 11) \<and> IsUnclear (attrs exStamped 11)"
    by (simp add: exStamped_def IsMigrate_def IsModify_def IsUnclear_def IsAdd_def
        NewChiHostReconcileAttributes_def)
  from updateCHI_marks [OF version live n1 n2 todo submitted]
  have "updateCHI exWorker Background (Some exOldCHI) (Some exCHI) exState =
     updateCHIAfterStamping exWorker Background True exPlan exCHI exStamped"
    unfolding Let_def plan using running by (simp add: stamped)
  then show ?thesis
    using hosts flags by simp
qed

subsection \<open>The fields of a Service that an update preserves\<close>

lemma reusePort_find:
  "reusePort curPorts newPort =
     (case find (\<lambda>curPort. Port curPort = Port newPort) curPorts of
        None \<Rightarrow> newPort
      | Some curPort \<Rightarrow> curPort)"
  by (induction curPorts) auto

lemma prepareService_fields:
  "ClusterIP (prepareService cur new) = ClusterIP cur"
  "HealthCheckNodePort (prepareService cur new) =
     (if ExternalTrafficPolicy cur = ServiceExternalTrafficPolicyTypeLocal
         \<and> ExternalTrafficPolicy new = ServiceExternalTrafficPolicyTypeLocal
      then HealthCheckNodePort cur else HealthCheckNodePort new)"
  "Ports (prepareService cur new) =
     (if (Type cur = ServiceTypeNodePort \<and> Type new = ServiceTypeNodePort)
         \<or> (Type cur = ServiceTypeLoadBalancer \<and> Type new = ServiceTypeLoadBalancer)
      then map (reusePort (Ports cur)) (Ports new) else Ports new)"
  by (auto simp: prepareService_def Let_def)

lemma updateService_live:
  "\<not> IsContextDone ctx st \<Longrightarrow>
     updateService w ctx chi cur new st = (err, submitted, st') \<Longrightarrow>
     submitted = prepareService cur new
     \<and> (\<exists>ev marks. oplog st' =
           oplog st @ [OpUpdateService submitted, OpAnnounce (chiPtr chi) ev marks])"
  by (auto simp: updateService_def Let_def call_def announce_def emit_def split: if_splits)

text \<open>
  C7. When \<^verbatim>\<open>updateService\<close> has prepared the new service (its context is not done
  when it is called),
  the service it submits has the cluster IP of the current service; it has the health
  check node port of the current service whenever the current and the new service both
  have the external traffic policy Local; and, when both services are of type NodePort
  or both of type LoadBalancer, every port of the new service whose port number is the
  number of a current port is the first such current port, whole, with its node port.
  The other ports are the ports of the new service.
\<close>

theorem updateService_preserves:
  assumes "\<not> IsContextDone ctx st"
    and "updateService w ctx chi curService newService st = (err, submitted, st')"
  shows "(\<exists>ev marks. oplog st' =
            oplog st @ [OpUpdateService submitted, OpAnnounce (chiPtr chi) ev marks])
    \<and> ClusterIP submitted = ClusterIP curService
    \<and> (ExternalTrafficPolicy curService = ServiceExternalTrafficPolicyTypeLocal
         \<and> ExternalTrafficPolicy newService = ServiceExternalTrafficPolicyTypeLocal
        \<longrightarrow> HealthCheckNodePort submitted = HealthCheckNodePort curService)
    \<and> length (Ports submitted) = length (Ports newService)
    \<and> ((Type curService = ServiceTypeNodePort \<and> Type newService = ServiceTypeNodePort)
         \<or> (Type curService = ServiceTypeLoadBalancer \<and> Type newService = ServiceTypeLoadBalancer)
        \<longrightarrow> (\<forall>i < length (Ports newService).
               Ports submitted ! i =
                 (case find (\<lambda>curPort. Port curPort = Port (Ports newService ! i))
                         (Ports curService) of
                    None \<Rightarrow> Ports newService ! i
                  | Some curPort \<Rightarrow> curPort)))"
proof -
  from updateService_live [OF assms]
  have sub: "submitted = prepareService curService newService"
    and ops: "\<exists>ev marks. oplog st' =
            oplog st @ [OpUpdateService submitted, OpAnnounce (chiPtr chi) ev marks]"
    by blast+
  have len: "length (Ports submitted) = length (Ports newService)"
    by (simp add: sub prepareService_fields)
  have ports: "(Type curService = ServiceTypeNodePort \<and> Type newService = ServiceTypeNodePort)
         \<or> (Type curService = ServiceTypeLoadBalancer \<and> Type newService = ServiceTypeLoadBalancer)
        \<longrightarrow> (\<forall>i < length (Ports newService).
               Ports submitted ! i =
                 (case find (\<lambda>curPort. Port curPort = Port (Ports newService ! i))
                         (Ports curService) of
                    None \<Rightarrow> Ports newService ! i
                  | Some curPort \<Rightarrow> curPort))"
    by (simp add: sub prepareService_fields reusePort_find)
  show ?thesis
    using ops len ports by (simp add: sub prepareService_fields)
qed

theorem updateService_preserves_witness:
  "\<not> IsContextDone Background exState
   \<and> ClusterIP (fst (snd (updateService exWorker Background exHead exCurService exNewService
        exState))) = ''10.0.0.1''
   \<and> length (Ports (fst (snd (updateService exWorker Background exHead exCurService exNewService
        exState)))) = 2
   \<and> Ports (fst (snd (updateService exWorker Background exHead exCurService exNewService
        exState))) ! 0 = exPort 8123 30001
   \<and> Ports (fst (snd (updateService exWorker Background exHead exCurService exNewService
        exState))) ! 1 = exPort 9000 0"
proof -
  let ?r = "updateService exWorker Background exHead exCurService exNewService exState"
  have live: "\<not> IsContextDone Background exState"
    by (simp add: Background_def IsContextDone_def)
  have run: "?r = (fst ?r, fst (snd ?r), snd (snd ?r))" by simp
  show ?thesis
    using updateService_preserves [OF live run] live
    by (simp add: exCurService_def exNewService_def exService_def exPort_def
        ServiceTypeNodePort_def)
qed

subsection \<open>The resources of a PersistentVolumeClaim\<close>

lemma notDoneFrom_now: "notDoneFrom ctx st \<Longrightarrow> \<not> IsContextDone ctx st"
  unfolding notDoneFrom_def IsContextDone_def
  by (drule spec [of _ "[]"]) simp

lemma notDoneFrom_later:
  "notDoneFrom ctx st \<Longrightarrow> oplog st' = oplog st @ ops \<Longrightarrow> notDoneFrom ctx st'"
  by (simp add: notDoneFrom_def)

lemma reconcileResource_grows:
  "\<exists>ops. oplog (snd (reconcileResource w ctx pvc desired name st)) = oplog st @ ops"
  by (simp add: reconcileResource_def Let_def call_def split: option.splits)

lemma reconcileResource_quantity:
  assumes "\<not> IsContextDone ctx st"
  shows "resourceQuantity (Requests (fst (reconcileResource w ctx pvc desired name st))) n =
     (if n = name then expectedQuantity (Requests pvc) desired name
      else resourceQuantity (Requests pvc) n)"
  using assms
  by (auto simp: reconcileResource_def resourceQuantity_def expectedQuantity_def Let_def call_def
      update_conv' split: option.splits)

lemma reconcileResource_frame:
  "(fst (reconcileResource w ctx pvc desired name st))\<lparr>Requests := r\<rparr> = pvc\<lparr>Requests := r\<rparr>"
  by (auto simp: reconcileResource_def Let_def call_def split: option.splits)

lemma expectedQuantity_step:
  assumes "\<not> IsContextDone ctx st"
  shows "expectedQuantity (Requests (fst (reconcileResource w ctx pvc desired name st))) desired n
     = expectedQuantity (Requests pvc) desired n"
  unfolding expectedQuantity_def reconcileResource_quantity [OF assms]
  by (auto simp: expectedQuantity_def Equal_refl split: option.splits)

lemma fold_reconcileResource_quantity:
  assumes "notDoneFrom ctx st"
  shows "resourceQuantity (Requests (fst (fold
            (\<lambda>resourceName (p, s). reconcileResource w ctx p desired resourceName s)
            names (pvc, st)))) n =
     (if n \<in> set names then expectedQuantity (Requests pvc) desired n
      else resourceQuantity (Requests pvc) n)"
  using assms
proof (induction names arbitrary: pvc st)
  case Nil
  show ?case by simp
next
  case (Cons m ms)
  have live: "\<not> IsContextDone ctx st"
    using Cons.prems by (rule notDoneFrom_now)
  obtain p1 s1 where step: "reconcileResource w ctx pvc desired m st = (p1, s1)"
    by (cases "reconcileResource w ctx pvc desired m st")
  obtain ops where "oplog s1 = oplog st @ ops"
    using reconcileResource_grows [of w ctx pvc desired m st] step by auto
  then have later: "notDoneFrom ctx s1"
    using Cons.prems by (rule notDoneFrom_later [rotated])
  have q1: "resourceQuantity (Requests p1) n =
     (if n = m then expectedQuantity (Requests pvc) desired m else resourceQuantity (Requests pvc) n)"
    using reconcileResource_quantity [OF live, of w pvc desired m n] step by simp
  have d1: "expectedQuantity (Requests p1) desired n = expectedQuantity (Requests pvc) desired n"
    using expectedQuantity_step [OF live, of w pvc desired m n] step by simp
  show ?case
    using Cons.IH [OF later, of p1] step q1 d1 by auto
qed

lemma fold_reconcileResource_frame:
  "(fst (fold (\<lambda>resourceName (p, s). reconcileResource w ctx p desired resourceName s)
            names (pvc, st)))\<lparr>Requests := r\<rparr> = pvc\<lparr>Requests := r\<rparr>"
proof (induction names arbitrary: pvc st)
  case Nil
  show ?case by simp
next
  case (Cons m ms)
  obtain p1 s1 where step: "reconcileResource w ctx pvc desired m st = (p1, s1)"
    by (cases "reconcileResource w ctx pvc desired m st")
  show ?case
    using Cons.IH [of p1 s1] step
      reconcileResource_frame [where w = w and ctx = ctx and pvc = pvc and desired = desired
        and name = m and st = st and r = r]
    by simp
qed

lemma resourceQuantity_None:
  "n \<notin> set (resourceNamesOf rl) \<Longrightarrow> resourceQuantity rl n = None"
  by (auto simp: resourceNamesOf_def resourceQuantity_def map_of_eq_None_iff split: option.splits)

text \<open>
  C8, as amended. When the context is not done while the resources of a PVC are
  reconciled (neither when \<^verbatim>\<open>reconcileResources\<close> is called nor after any of the
  operations that follow), the reconcile changes exactly the resource names that the
  requests of the PVC and the requests of the template both list and whose quantities
  differ: for these the quantity of the PVC is the desired one afterwards; for a name
  that both list with equal quantities, and for a name that only one side lists, the
  PVC has what it had. Nothing else of the PVC changes. (When the context is done at
  the call, nothing is reconciled.)
\<close>

theorem reconcileResources_quantities:
  assumes "notDoneFrom ctx st"
    and "reconcileResources w ctx pvc template st = (pvc', st')"
  shows "resourceQuantity (Requests pvc') name =
           (case resourceQuantity (Requests pvc) name of
              None \<Rightarrow> None
            | Some pvcResourceQuantity \<Rightarrow>
                (case resourceQuantity (TemplateRequests template) name of
                   None \<Rightarrow> Some pvcResourceQuantity
                 | Some desiredResourceQuantity \<Rightarrow>
                     if Equal pvcResourceQuantity desiredResourceQuantity
                     then Some pvcResourceQuantity
                     else Some desiredResourceQuantity))
    \<and> pvc'\<lparr>Requests := Requests pvc\<rparr> = pvc"
proof -
  let ?names = "Simple (resourceNamesOf (Requests pvc)) (resourceNamesOf (TemplateRequests template))"
  have res: "pvc' = fst (fold
      (\<lambda>resourceName (p, s). reconcileResource w ctx p (TemplateRequests template) resourceName s)
      ?names (pvc, st))"
    using assms(2) notDoneFrom_now [OF assms(1)]
    by (simp add: reconcileResources_def reconcileResourcesList_def Let_def)
  have q: "resourceQuantity (Requests pvc') name =
     (if name \<in> set ?names then expectedQuantity (Requests pvc) (TemplateRequests template) name
      else resourceQuantity (Requests pvc) name)"
    unfolding res by (rule fold_reconcileResource_quantity [OF assms(1)])
  have out: "name \<notin> set ?names \<Longrightarrow>
     resourceQuantity (Requests pvc) name
       = expectedQuantity (Requests pvc) (TemplateRequests template) name"
    using resourceQuantity_None [of name "Requests pvc"]
      resourceQuantity_None [of name "TemplateRequests template"]
    by (auto simp: Simple_def expectedQuantity_def split: option.splits)
  have "resourceQuantity (Requests pvc') name
      = expectedQuantity (Requests pvc) (TemplateRequests template) name"
    using q out by auto
  moreover have "pvc'\<lparr>Requests := Requests pvc\<rparr> = pvc"
    unfolding res
    using fold_reconcileResource_frame [where w = w and ctx = ctx
        and desired = "TemplateRequests template" and names = ?names and pvc = pvc and st = st
        and r = "Requests pvc"]
    by simp
  ultimately show ?thesis by (simp add: expectedQuantity_def)
qed

theorem reconcileResources_quantities_witness:
  "notDoneFrom Background exState
   \<and> resourceQuantity (Requests (fst (reconcileResources exWorker Background exClaim exTemplate
        exState))) ''storage'' = Some (Quantity 2 ''Gi'')
   \<and> resourceQuantity (Requests (fst (reconcileResources exWorker Background exClaim exTemplate
        exState))) ''cpu'' = None"
proof -
  let ?r = "reconcileResources exWorker Background exClaim exTemplate exState"
  have live: "notDoneFrom Background exState"
    by (simp add: Background_def notDoneFrom_def)
  have run: "?r = (fst ?r, snd ?r)" by simp
  show ?thesis
    using reconcileResources_quantities [OF live run, of "''storage''"]
      reconcileResources_quantities [OF live run, of "''cpu''"] live
    by (simp add: resourceQuantity_def exClaim_def exTemplate_def exPVC_def Equal_def)
qed

text \<open>
  C8 as stated fails when the context is done: the PVC requests 1Gi of storage, the
  template asks for 2Gi, and the reconcile leaves the PVC as it is.
\<close>

theorem reconcileResources_cancelled_counterexample:
  "IsContextDone Cancelled exState
   \<and> resourceQuantity (Requests exClaim) ''storage'' = Some (Quantity 1 ''Gi'')
   \<and> resourceQuantity (TemplateRequests exTemplate) ''storage'' = Some (Quantity 2 ''Gi'')
   \<and> \<not> Equal (Quantity 1 ''Gi'') (Quantity 2 ''Gi'')
   \<and> reconcileResources exWorker Cancelled exClaim exTemplate exState = (exClaim, exState)"
  by (simp add: Cancelled_def IsContextDone_def resourceQuantity_def exClaim_def exTemplate_def
      exPVC_def Equal_def reconcileResources_def)

subsection \<open>The counters of added and updated hosts\<close>











subsection \<open>The poll and the exclusion of a host\<close>

lemma probes_Suc: "probes host (Suc n) = [OpIsHostInCluster host, OpSleep] @ probes host n"
  by (simp add: probes_def)

text \<open>
  If the poll returns, it returns nil, after some number \<open>n\<close> of rounds in which the
  context was not done and the query was answered with false, each followed by a wait;
  then either the context was done, or it was not done and the query was answered with
  true. The poll changes nothing but the log.
\<close>

lemma poll_result:
  assumes "pollHostContext w ctx host f st = Some r"
  shows "(\<forall>s. f ctx host s = (g (oplog s), emit (OpIsHostInCluster host) s)) \<longrightarrow>
     fst r = None
     \<and> (\<exists>n. (\<forall>k<n. \<not> doneAt ctx (oplog st @ probes host k) \<and> \<not> g (oplog st @ probes host k))
           \<and> (doneAt ctx (oplog st @ probes host n) \<and> oplog (snd r) = oplog st @ probes host n
               \<or> \<not> doneAt ctx (oplog st @ probes host n) \<and> g (oplog st @ probes host n)
                 \<and> oplog (snd r) = oplog st @ probes host n @ [OpIsHostInCluster host]))
     \<and> statuses (snd r) = statuses st \<and> attrs (snd r) = attrs st \<and> creator (snd r) = creator st"
proof (induct rule: pollHostContext.raw_induct [OF _ assms])
  case (1 poll w ctx host f st r)
  show ?case
  proof (intro impI)
    assume probe: "\<forall>s. f ctx host s = (g (oplog s), emit (OpIsHostInCluster host) s)"
    let ?ends = "\<lambda>st r n.
        (\<forall>k<n. \<not> doneAt ctx (oplog st @ probes host k) \<and> \<not> g (oplog st @ probes host k))
        \<and> (doneAt ctx (oplog st @ probes host n) \<and> oplog (snd r) = oplog st @ probes host n
            \<or> \<not> doneAt ctx (oplog st @ probes host n) \<and> g (oplog st @ probes host n)
              \<and> oplog (snd r) = oplog st @ probes host n @ [OpIsHostInCluster host])"
    have "fst r = None \<and> (\<exists>n. ?ends st r n)
      \<and> statuses (snd r) = statuses st \<and> attrs (snd r) = attrs st \<and> creator (snd r) = creator st"
    proof (cases "IsContextDone ctx st")
      case True
      then have r: "r = (None, st)"
        using "1.hyps"(2) by simp
      have "?ends st r 0"
        using True by (simp add: r IsContextDone_def probes_def)
      then show ?thesis
        using r by auto
    next
      case False
      then have live: "\<not> doneAt ctx (oplog st)"
        by (simp add: IsContextDone_def)
      show ?thesis
      proof (cases "g (oplog st)")
        case True
        then have r: "r = (None, emit (OpIsHostInCluster host) st)"
          using "1.hyps"(2) False probe by simp
        have "?ends st r 0"
          using True live by (simp add: r emit_def probes_def)
        moreover have "fst r = None" "statuses (snd r) = statuses st" "attrs (snd r) = attrs st"
          "creator (snd r) = creator st"
          by (simp_all add: r emit_def)
        ultimately show ?thesis by blast
      next
        case silent: False
        let ?st1 = "emit OpSleep (emit (OpIsHostInCluster host) st)"
        have rec: "poll w ctx host f ?st1 = Some r"
          using "1.hyps"(2) False probe silent by simp
        have st1: "oplog ?st1 = oplog st @ [OpIsHostInCluster host, OpSleep]"
          "statuses ?st1 = statuses st" "attrs ?st1 = attrs st" "creator ?st1 = creator st"
          by (simp_all add: emit_def)
        from "1.hyps"(1) [OF rec] probe
        obtain n where nil: "fst r = None" and ends: "?ends ?st1 r n"
          and frame: "statuses (snd r) = statuses ?st1" "attrs (snd r) = attrs ?st1"
            "creator (snd r) = creator ?st1"
          by blast
        have shift: "oplog ?st1 @ probes host k = oplog st @ probes host (Suc k)" for k
          by (simp add: st1(1) probes_Suc)
        have before: "\<forall>k<Suc n. \<not> doneAt ctx (oplog st @ probes host k)
            \<and> \<not> g (oplog st @ probes host k)"
        proof (intro allI impI)
          fix k assume k: "k < Suc n"
          show "\<not> doneAt ctx (oplog st @ probes host k) \<and> \<not> g (oplog st @ probes host k)"
          proof (cases k)
            case 0
            then show ?thesis using live silent by (simp add: probes_def)
          next
            case (Suc j)
            then have "j < n" using k by simp
            then show ?thesis using ends Suc by (simp add: shift)
          qed
        qed
        have shift': "oplog ?st1 @ probes host k @ ops = oplog st @ probes host (Suc k) @ ops"
          for k ops
          by (simp add: st1(1) probes_Suc)
        have tail: "doneAt ctx (oplog st @ probes host (Suc n))
              \<and> oplog (snd r) = oplog st @ probes host (Suc n)
            \<or> \<not> doneAt ctx (oplog st @ probes host (Suc n)) \<and> g (oplog st @ probes host (Suc n))
              \<and> oplog (snd r) = oplog st @ probes host (Suc n) @ [OpIsHostInCluster host]"
          using ends unfolding shift shift' by blast
        from before tail have "?ends st r (Suc n)"
          by (rule conjI)
        then have "\<exists>n. ?ends st r n" ..
        moreover have "statuses (snd r) = statuses st" "attrs (snd r) = attrs st"
          "creator (snd r) = creator st"
          using frame st1(2-4) by simp_all
        ultimately show ?thesis
          using nil by blast
      qed
    qed
    then show "fst r = None
     \<and> (\<exists>n. (\<forall>k<n. \<not> doneAt ctx (oplog st @ probes host k) \<and> \<not> g (oplog st @ probes host k))
           \<and> (doneAt ctx (oplog st @ probes host n) \<and> oplog (snd r) = oplog st @ probes host n
               \<or> \<not> doneAt ctx (oplog st @ probes host n) \<and> g (oplog st @ probes host n)
                 \<and> oplog (snd r) = oplog st @ probes host n @ [OpIsHostInCluster host]))
     \<and> statuses (snd r) = statuses st \<and> attrs (snd r) = attrs st \<and> creator (snd r) = creator st"
      by simp
  qed
qed

text \<open>
  The poll returns as soon as the context is done or a query is answered with true.
\<close>

lemma poll_returns:
  "\<forall>s. f ctx host s = (g (oplog s), emit (OpIsHostInCluster host) s) \<Longrightarrow>
   doneAt ctx (oplog st @ probes host n) \<or> g (oplog st @ probes host n) \<Longrightarrow>
   pollHostContext w ctx host f st \<noteq> None"
proof (induction n arbitrary: st)
  case 0
  then show ?case
    by (subst pollHostContext.simps) (auto simp: probes_def IsContextDone_def)
next
  case (Suc n)
  show ?case
  proof (cases "IsContextDone ctx st \<or> g (oplog st)")
    case True
    then show ?thesis using Suc.prems(1) by (subst pollHostContext.simps) auto
  next
    case False
    let ?st1 = "emit OpSleep (emit (OpIsHostInCluster host) st)"
    have "doneAt ctx (oplog ?st1 @ probes host n) \<or> g (oplog ?st1 @ probes host n)"
      using Suc.prems(2) by (simp add: emit_def probes_Suc)
    from Suc.IH [OF Suc.prems(1) this]
    show ?thesis using False Suc.prems(1) by (subst pollHostContext.simps) simp
  qed
qed

lemma poll_cancelled:
  "IsContextDone ctx st \<Longrightarrow> pollHostContext w ctx host f st = Some (None, st)"
  by (subst pollHostContext.simps) simp

lemma waitHostNotInCluster_result:
  assumes "waitHostNotInCluster w ctx host st = Some (err, st')"
  shows "err = None
     \<and> (\<exists>n. (\<forall>k<n. \<not> doneAt ctx (oplog st @ probes host k)
                    \<and> replyIsHostInCluster w (oplog st @ probes host k) host)
           \<and> (doneAt ctx (oplog st @ probes host n) \<and> oplog st' = oplog st @ probes host n
               \<or> \<not> doneAt ctx (oplog st @ probes host n)
                 \<and> \<not> replyIsHostInCluster w (oplog st @ probes host n) host
                 \<and> oplog st' = oplog st @ probes host n @ [OpIsHostInCluster host]))
     \<and> statuses st' = statuses st \<and> attrs st' = attrs st \<and> creator st' = creator st"
  using poll_result [OF assms [unfolded waitHostNotInCluster_def],
      where g = "\<lambda>ops. \<not> replyIsHostInCluster w ops host"]
  by (simp add: IsHostInCluster_def)

lemma waitHostNotInCluster_returns:
  assumes "doneAt ctx (oplog st @ probes host n)
    \<or> \<not> replyIsHostInCluster w (oplog st @ probes host n) host"
  shows "waitHostNotInCluster w ctx host st \<noteq> None"
  unfolding waitHostNotInCluster_def
  by (rule poll_returns [where g = "\<lambda>ops. \<not> replyIsHostInCluster w ops host" and n = n])
     (simp_all add: assms IsHostInCluster_def)

lemma oplog_emit: "oplog (emit c st) = oplog st @ [c]"
  by (simp add: emit_def)

lemma oplog_call: "oplog (snd (call w c st)) = oplog st @ [c]"
  by (simp add: call_def)

lemma oplog_announce:
  "oplog (announce chi ev marks st) = oplog st @ [OpAnnounce (chiPtr chi) ev marks]"
  by (simp add: announce_def emit_def)

lemma updateConfigMap_grows:
  "\<exists>rest. oplog (snd (updateConfigMap w ctx chi configMap st)) = oplog st @ rest"
  by (cases "call w (OpUpdateConfigMap configMap) st")
    (use oplog_call [of w "OpUpdateConfigMap configMap" st] in
      \<open>simp add: updateConfigMap_def oplog_announce\<close>)

lemma createConfigMap_grows:
  "\<exists>rest. oplog (snd (createConfigMap w ctx chi configMap st)) = oplog st @ rest"
  by (cases "call w (OpCreateConfigMap configMap) st")
    (use oplog_call [of w "OpCreateConfigMap configMap" st] in
      \<open>simp add: createConfigMap_def oplog_announce\<close>)

lemma reconcileConfigMap_first:
  assumes "\<not> IsContextDone ctx st"
  shows "\<exists>rest. oplog (snd (reconcileConfigMap w ctx chi configMap update st)) =
    oplog st @ OpGetConfigMap (ObjectMeta.truncate configMap) # rest"
proof -
  obtain cur err where get: "getConfigMap w (oplog st) (ObjectMeta.truncate configMap) = (cur, err)"
    by (cases "getConfigMap w (oplog st) (ObjectMeta.truncate configMap)")
  define st1 where "st1 = emit (OpGetConfigMap (ObjectMeta.truncate configMap)) st"
  have o1: "oplog st1 = oplog st @ [OpGetConfigMap (ObjectMeta.truncate configMap)]"
    by (simp add: st1_def oplog_emit)
  obtain err2 st2 where upd:
    "(if cur \<noteq> None then updateConfigMap w ctx chi configMap st1 else (err, st1)) = (err2, st2)"
    by (cases "if cur \<noteq> None then updateConfigMap w ctx chi configMap st1 else (err, st1)")
  obtain r2 where o2: "oplog st2 = oplog st1 @ r2"
    using upd updateConfigMap_grows [of w ctx chi configMap st1]
    by (cases "cur \<noteq> None") auto
  obtain err3 st3 where cre:
    "(if IsNotFound err2 then createConfigMap w ctx chi configMap st2 else (err2, st2)) = (err3, st3)"
    by (cases "if IsNotFound err2 then createConfigMap w ctx chi configMap st2 else (err2, st2)")
  obtain r3 where o3: "oplog st3 = oplog st2 @ r3"
    using cre createConfigMap_grows [of w ctx chi configMap st2]
    by (cases "IsNotFound err2") auto
  define st4 where "st4 = (if err3 \<noteq> None
                    then announce chi (Some (eventActionReconcile, eventReasonReconcileFailed))
                           [WithStatusAction, WithStatusError] st3
                    else st3)"
  have o4: "\<exists>r4. oplog st4 = oplog st3 @ r4"
    by (simp add: st4_def oplog_announce)
  have res: "snd (reconcileConfigMap w ctx chi configMap update st) =
     (if cur \<noteq> None \<and> \<not> update then st1 else st4)"
  proof (cases "cur \<noteq> None \<and> \<not> update")
    case True
    then show ?thesis
      using assms get by (simp add: reconcileConfigMap_def st1_def)
  next
    case False
    have "reconcileConfigMap w ctx chi configMap update st =
      (let (err2, st2) =
             (if cur \<noteq> None then updateConfigMap w ctx chi configMap st1 else (err, st1));
           (err3, st3) =
             (if IsNotFound err2 then createConfigMap w ctx chi configMap st2 else (err2, st2));
           st4 =
             (if err3 \<noteq> None
              then announce chi (Some (eventActionReconcile, eventReasonReconcileFailed))
                     [WithStatusAction, WithStatusError] st3
              else st3)
       in (err3, st4))"
      unfolding reconcileConfigMap_def get st1_def using assms False by (auto simp: Let_def)
    also have "\<dots> = (err3, st4)"
      by (simp only: upd Let_def prod.case cre st4_def)
    finally show ?thesis
      using False by auto
  qed
  show ?thesis
    unfolding res using o1 o2 o3 o4 by auto
qed

lemma reconcileConfigMap_grows:
  "\<exists>rest. oplog (snd (reconcileConfigMap w ctx chi configMap update st)) = oplog st @ rest"
proof (cases "IsContextDone ctx st")
  case True
  then show ?thesis by (simp add: reconcileConfigMap_def)
next
  case False
  then show ?thesis
    using reconcileConfigMap_first [OF False, of w chi configMap update] by auto
qed

lemma reconcileCHIConfigMaps_first:
  assumes "\<not> IsContextDone ctx st"
  shows "\<exists>rest. oplog (snd (reconcileCHIConfigMaps w ctx chi options update st)) =
       oplog st @ OpGetConfigMap (ObjectMeta.truncate (CreateConfigMapCHICommon w st options)) # rest"
proof -
  let ?common = "CreateConfigMapCHICommon w st options"
  obtain err st1 where one: "reconcileConfigMap w ctx chi ?common update st = (err, st1)"
    by (cases "reconcileConfigMap w ctx chi ?common update st")
  obtain r1 where o1: "oplog st1 = oplog st @ OpGetConfigMap (ObjectMeta.truncate ?common) # r1"
    using reconcileConfigMap_first [OF assms, of w chi ?common update] one by auto
  let ?users = "CreateConfigMapCHICommonUsers w st1"
  obtain err2 st2 where two: "reconcileConfigMap w ctx chi ?users update st1 = (err2, st2)"
    by (cases "reconcileConfigMap w ctx chi ?users update st1")
  obtain r2 where o2: "oplog st2 = oplog st1 @ r2"
    using reconcileConfigMap_grows [of w ctx chi ?users update st1] two by auto
  have "snd (reconcileCHIConfigMaps w ctx chi options update st) = (if err \<noteq> None then st1 else st2)"
    using assms one two by (simp add: reconcileCHIConfigMaps_def)
  then show ?thesis
    using o1 o2 by auto
qed

lemma excludeOptions_eq:
  "RemoteServersOptions (excludeOptions host) =
     Some \<lparr>optExcludeHost = Some host,
           optExcludeReconcileAttributes =
             Some (NewChiHostReconcileAttributes\<lparr>attrAdd := True\<rparr>)\<rparr>"
  by (simp add: excludeOptions_def SetRemoteServersGeneratorOptions_def
      ExcludeReconcileAttributes_def ExcludeHost_def SetAdd_def
      NewRemoteServersGeneratorOptions_def NewClickHouseConfigFilesGeneratorOptions_def)


text \<open>
  C2, as amended. If the context is done when \<^verbatim>\<open>excludeHost\<close> is called or
  \<^verbatim>\<open>shouldWaitExcludeHost\<close> is false, \<^verbatim>\<open>excludeHost\<close> performs no action and returns
  nil. Otherwise it reconciles the ConfigMaps of the CHI, rendered with the options that
  exclude the host and the hosts whose reconcile attributes have Add, with update true;
  then it polls: in each round it asks the Schemer whether the host is in the cluster
  and, on the answer that it is, waits. The poll ends, and \<^verbatim>\<open>excludeHost\<close> returns nil,
  at the first round at which the context is done, with no further question, or at
  which the Schemer answers that the host is not in the cluster. It returns whenever
  there is such a round.
\<close>

theorem excludeHost_behaviour:
  "(IsContextDone ctx st \<or> \<not> shouldWaitExcludeHost w host status \<longrightarrow>
      excludeHost w ctx host status st = Some (None, st))
   \<and> (\<not> IsContextDone ctx st \<and> shouldWaitExcludeHost w host status \<longrightarrow>
        (let st1 = snd (reconcileCHIConfigMaps w ctx (HostCHI host)
                          (Some (excludeOptions host)) True st)
         in RemoteServersOptions (excludeOptions host) =
              Some \<lparr>optExcludeHost = Some host,
                    optExcludeReconcileAttributes =
                      Some (NewChiHostReconcileAttributes\<lparr>attrAdd := True\<rparr>)\<rparr>
            \<and> (\<exists>rest. oplog st1 =
                  oplog st @ OpGetConfigMap (ObjectMeta.truncate
                     (CreateConfigMapCHICommon w st (Some (excludeOptions host)))) # rest)
            \<and> (\<forall>err st'. excludeHost w ctx host status st = Some (err, st') \<longrightarrow>
                  err = None
                  \<and> (\<exists>n. (\<forall>k<n. \<not> doneAt ctx (oplog st1 @ probes host k)
                                 \<and> replyIsHostInCluster w (oplog st1 @ probes host k) host)
                        \<and> (doneAt ctx (oplog st1 @ probes host n)
                              \<and> oplog st' = oplog st1 @ probes host n
                            \<or> \<not> doneAt ctx (oplog st1 @ probes host n)
                              \<and> \<not> replyIsHostInCluster w (oplog st1 @ probes host n) host
                              \<and> oplog st' = oplog st1 @ probes host n @ [OpIsHostInCluster host]))
                  \<and> statuses st' = statuses st1 \<and> attrs st' = attrs st1)
            \<and> ((\<exists>n. doneAt ctx (oplog st1 @ probes host n)
                      \<or> \<not> replyIsHostInCluster w (oplog st1 @ probes host n) host) \<longrightarrow>
                  excludeHost w ctx host status st \<noteq> None)))"
proof (intro conjI impI)
  assume "IsContextDone ctx st \<or> \<not> shouldWaitExcludeHost w host status"
  then show "excludeHost w ctx host status st = Some (None, st)"
    by (auto simp: excludeHost_def)
next
  assume a: "\<not> IsContextDone ctx st \<and> shouldWaitExcludeHost w host status"
  define st1 where "st1 = snd (reconcileCHIConfigMaps w ctx (HostCHI host)
                          (Some (excludeOptions host)) True st)"
  have ex: "excludeHost w ctx host status st =
      (case waitHostNotInCluster w ctx host st1 of
         None \<Rightarrow> None
       | Some (ignored2, st2) \<Rightarrow> Some (None, st2))"
    using a by (simp add: excludeHost_def st1_def Let_def split: prod.splits)
  have first: "\<exists>rest. oplog st1 =
                  oplog st @ OpGetConfigMap (ObjectMeta.truncate
                     (CreateConfigMapCHICommon w st (Some (excludeOptions host)))) # rest"
    unfolding st1_def using a by (intro reconcileCHIConfigMaps_first) simp
  have result: "\<forall>err st'. excludeHost w ctx host status st = Some (err, st') \<longrightarrow>
                  err = None
                  \<and> (\<exists>n. (\<forall>k<n. \<not> doneAt ctx (oplog st1 @ probes host k)
                                 \<and> replyIsHostInCluster w (oplog st1 @ probes host k) host)
                        \<and> (doneAt ctx (oplog st1 @ probes host n)
                              \<and> oplog st' = oplog st1 @ probes host n
                            \<or> \<not> doneAt ctx (oplog st1 @ probes host n)
                              \<and> \<not> replyIsHostInCluster w (oplog st1 @ probes host n) host
                              \<and> oplog st' = oplog st1 @ probes host n @ [OpIsHostInCluster host]))
                  \<and> statuses st' = statuses st1 \<and> attrs st' = attrs st1"
  proof (intro allI impI)
    fix err st'
    assume r: "excludeHost w ctx host status st = Some (err, st')"
    then obtain e2 where w2: "waitHostNotInCluster w ctx host st1 = Some (e2, st')" and "err = None"
      unfolding ex by (auto split: option.splits)
    then show "err = None
                  \<and> (\<exists>n. (\<forall>k<n. \<not> doneAt ctx (oplog st1 @ probes host k)
                                 \<and> replyIsHostInCluster w (oplog st1 @ probes host k) host)
                        \<and> (doneAt ctx (oplog st1 @ probes host n)
                              \<and> oplog st' = oplog st1 @ probes host n
                            \<or> \<not> doneAt ctx (oplog st1 @ probes host n)
                              \<and> \<not> replyIsHostInCluster w (oplog st1 @ probes host n) host
                              \<and> oplog st' = oplog st1 @ probes host n @ [OpIsHostInCluster host]))
                  \<and> statuses st' = statuses st1 \<and> attrs st' = attrs st1"
      using waitHostNotInCluster_result [OF w2] by blast
  qed
  have returns: "(\<exists>n. doneAt ctx (oplog st1 @ probes host n)
                      \<or> \<not> replyIsHostInCluster w (oplog st1 @ probes host n) host) \<longrightarrow>
                  excludeHost w ctx host status st \<noteq> None"
  proof
    assume "\<exists>n. doneAt ctx (oplog st1 @ probes host n)
                      \<or> \<not> replyIsHostInCluster w (oplog st1 @ probes host n) host"
    then obtain n where "doneAt ctx (oplog st1 @ probes host n)
                      \<or> \<not> replyIsHostInCluster w (oplog st1 @ probes host n) host" ..
    then have "waitHostNotInCluster w ctx host st1 \<noteq> None"
      by (rule waitHostNotInCluster_returns)
    then show "excludeHost w ctx host status st \<noteq> None"
      unfolding ex by (auto split: option.splits)
  qed
  show "let st1 = snd (reconcileCHIConfigMaps w ctx (HostCHI host)
                          (Some (excludeOptions host)) True st)
         in RemoteServersOptions (excludeOptions host) =
              Some \<lparr>optExcludeHost = Some host,
                    optExcludeReconcileAttributes =
                      Some (NewChiHostReconcileAttributes\<lparr>attrAdd := True\<rparr>)\<rparr>
            \<and> (\<exists>rest. oplog st1 =
                  oplog st @ OpGetConfigMap (ObjectMeta.truncate
                     (CreateConfigMapCHICommon w st (Some (excludeOptions host)))) # rest)
            \<and> (\<forall>err st'. excludeHost w ctx host status st = Some (err, st') \<longrightarrow>
                  err = None
                  \<and> (\<exists>n. (\<forall>k<n. \<not> doneAt ctx (oplog st1 @ probes host k)
                                 \<and> replyIsHostInCluster w (oplog st1 @ probes host k) host)
                        \<and> (doneAt ctx (oplog st1 @ probes host n)
                              \<and> oplog st' = oplog st1 @ probes host n
                            \<or> \<not> doneAt ctx (oplog st1 @ probes host n)
                              \<and> \<not> replyIsHostInCluster w (oplog st1 @ probes host n) host
                              \<and> oplog st' = oplog st1 @ probes host n @ [OpIsHostInCluster host]))
                  \<and> statuses st' = statuses st1 \<and> attrs st' = attrs st1)
            \<and> ((\<exists>n. doneAt ctx (oplog st1 @ probes host n)
                      \<or> \<not> replyIsHostInCluster w (oplog st1 @ probes host n) host) \<longrightarrow>
                  excludeHost w ctx host status st \<noteq> None)"
    unfolding Let_def st1_def [symmetric]
    by (intro conjI; (rule excludeOptions_eq | rule first | rule result | rule returns))
qed

theorem excludeHost_behaviour_witness:
  "\<not> IsContextDone Background exState
   \<and> shouldWaitExcludeHost exWorker (exHost 10 [10, 11]) statefulSetStatusModified
   \<and> map_option fst
        (excludeHost exWorker Background (exHost 10 [10, 11]) statefulSetStatusModified exState)
       = Some None
   \<and> map_option (oplog \<circ> snd)
        (excludeHost exWorker Background (exHost 10 [10, 11]) statefulSetStatusModified exState)
       = Some (exConfigOps @ [OpIsHostInCluster (exHost 10 [10, 11]), OpSleep,
                 OpIsHostInCluster (exHost 10 [10, 11])])
   \<and> \<not> IsContextDone exDeadline exState
   \<and> shouldWaitExcludeHost exStuckWorker (exHost 10 [10, 11]) statefulSetStatusModified
   \<and> map_option fst
        (excludeHost exStuckWorker exDeadline (exHost 10 [10, 11]) statefulSetStatusModified
           exState)
       = Some None
   \<and> map_option (oplog \<circ> snd)
        (excludeHost exStuckWorker exDeadline (exHost 10 [10, 11]) statefulSetStatusModified
           exState)
       = Some (exConfigOps @ [OpIsHostInCluster (exHost 10 [10, 11]), OpSleep])
   \<and> \<not> shouldWaitExcludeHost exWorker (exHost 10 [10]) statefulSetStatusModified
   \<and> excludeHost exWorker Background (exHost 10 [10]) statefulSetStatusModified exState
       = Some (None, exState)"
proof -
  let ?h = "exHost 10 [10, 11]"
  let ?run = "excludeHost exWorker Background ?h statefulSetStatusModified exState"
  let ?cut = "excludeHost exStuckWorker exDeadline ?h statefulSetStatusModified exState"
  note eval = excludeHost_def shouldWaitExcludeHost_def waitHostNotInCluster_def
    pollHostContext.simps IsHostInCluster_def reconcileCHIConfigMaps_def reconcileConfigMap_def
    updateConfigMap_def createConfigMap_def call_def emit_def announce_def IsContextDone_def
    Background_def exDeadline_def exWorker_def exStuckWorker_def exState_def exHead_def
    exNotFound_def IsNotFound_def exConfigMap_def exConfigOps_def Let_def exHost_def
    HostsCount_def IsReconcilingPolicyWait_def statefulSetStatusModified_def
    statefulSetStatusNew_def statefulSetStatusSame_def
  have live: "\<not> IsContextDone Background exState" "\<not> IsContextDone exDeadline exState"
    by (simp_all add: IsContextDone_def Background_def exDeadline_def exState_def)
  have should: "shouldWaitExcludeHost exWorker ?h statefulSetStatusModified"
    "shouldWaitExcludeHost exStuckWorker ?h statefulSetStatusModified"
    and single: "\<not> shouldWaitExcludeHost exWorker (exHost 10 [10]) statefulSetStatusModified"
    by (simp_all add: shouldWaitExcludeHost_def exHost_def exHead_def HostsCount_def
        IsReconcilingPolicyWait_def statefulSetStatusModified_def statefulSetStatusNew_def
        statefulSetStatusSame_def exStuckWorker_def)
  have run: "map_option (oplog \<circ> snd) ?run =
      Some (exConfigOps @ [OpIsHostInCluster ?h, OpSleep, OpIsHostInCluster ?h])"
    by (simp add: eval)
  have cut: "map_option (oplog \<circ> snd) ?cut = Some (exConfigOps @ [OpIsHostInCluster ?h, OpSleep])"
    by (simp add: eval)
  from excludeHost_behaviour [of Background exState exWorker ?h statefulSetStatusModified]
    live(1) should(1)
  have "\<forall>err st'. ?run = Some (err, st') \<longrightarrow> err = None"
    unfolding Let_def by blast
  then have run_nil: "map_option fst ?run = Some None"
    using run by (cases ?run) auto
  from excludeHost_behaviour [of exDeadline exState exStuckWorker ?h statefulSetStatusModified]
    live(2) should(2)
  have "\<forall>err st'. ?cut = Some (err, st') \<longrightarrow> err = None"
    unfolding Let_def by blast
  then have cut_nil: "map_option fst ?cut = Some None"
    using cut by (cases ?cut) auto
  from excludeHost_behaviour [of Background exState exWorker "exHost 10 [10]"
      statefulSetStatusModified] single
  have "excludeHost exWorker Background (exHost 10 [10]) statefulSetStatusModified exState
       = Some (None, exState)"
    by blast
  then show ?thesis
    using live should single run run_nil cut cut_nil by simp
qed

text \<open>
  C2 as stated fails when the context is done: \<^verbatim>\<open>shouldWaitExcludeHost\<close> is true of a
  host with a peer in its shard under the policy Wait and a modified StatefulSet, and
  \<^verbatim>\<open>excludeHost\<close> reconciles no ConfigMap and does not poll.
\<close>

theorem excludeHost_cancelled_counterexample:
  "IsContextDone Cancelled exState
   \<and> shouldWaitExcludeHost exWorker (exHost 10 [10, 11]) statefulSetStatusModified
   \<and> excludeHost exWorker Cancelled (exHost 10 [10, 11]) statefulSetStatusModified exState
       = Some (None, exState)"
  by (simp add: Cancelled_def IsContextDone_def excludeHost_def shouldWaitExcludeHost_def
      exHost_def exHead_def HostsCount_def IsReconcilingPolicyWait_def
      statefulSetStatusModified_def statefulSetStatusNew_def statefulSetStatusSame_def)

subsection \<open>A context that is done\<close>

lemma tillError_skip_at:
  "(\<And>x. f x st = Some (None, st)) \<Longrightarrow> tillError f xs st = Some (None, st)"
  by (induction xs) simp_all

lemma cancelled_configmaps:
  assumes "IsContextDone ctx st"
  shows "updateConfigMap w ctx chi configMap st = (None, st)"
    and "createConfigMap w ctx chi configMap st = (None, st)"
    and "reconcileConfigMap w ctx chi configMap update st = (None, st)"
    and "reconcileCHIConfigMaps w ctx chi options update st = (None, st)"
  using assms
  by (simp_all add: updateConfigMap_def createConfigMap_def reconcileConfigMap_def
      reconcileCHIConfigMaps_def)

lemma cancelled_services:
  assumes "IsContextDone ctx st"
  shows "updateService w ctx chi curService newService st = (None, newService, st)"
    and "createService w ctx chi service st = (None, st)"
    and "reconcileService w ctx chi service st = (None, st)"
  using assms
  by (simp_all add: updateService_def createService_def reconcileService_def)

lemma cancelled_statefulsets:
  assumes "IsContextDone ctx st"
  shows "createStatefulSet w ctx statefulSet host st = (None, st)"
    and "updateStatefulSet w ctx curStatefulSet statefulSet host st = (None, st)"
    and "reconcileStatefulSet w ctx statefulSet host st = (None, st)"
  using assms
  by (simp_all add: createStatefulSet_def updateStatefulSet_def reconcileStatefulSet_def)

lemma cancelled_volumes:
  assumes "IsContextDone ctx st"
  shows "reconcilePersistentVolumes w ctx host st = st"
    and "reconcilePersistentVolumeClaims w ctx host st = (None, st)"
    and "reconcileResources w ctx pvc template st = (pvc, st)"
    and "reconcileResourcesList w ctx pvc desiredResourceList st = (pvc, st)"
    and "reconcileResource w ctx pvc desiredResourceList resourceName st = (pvc, st)"
  using assms
  by (simp_all add: reconcilePersistentVolumes_def reconcilePersistentVolumeClaims_def
      reconcileResources_def reconcileResourcesList_def reconcileResource_def)

lemma cancelled_deletes:
  assumes "IsContextDone ctx st"
  shows "deleteTables w ctx host st = (None, st)"
    and "deleteHost w ctx host st = (None, st)"
    and "deleteShard w ctx shard st = (None, st)"
    and "deleteCluster w ctx cluster st = (None, st)"
    and "deleteCHI w ctx chi st = (None, st)"
    and "finalizeCHI w ctx chi st = (None, st)"
  using assms
  by (simp_all add: deleteTables_def deleteHost_def deleteShard_def deleteCluster_def
      deleteCHI_def finalizeCHI_def)

lemma cancelled_hosts:
  assumes "IsContextDone ctx st"
  shows "waitHostInCluster w ctx host st = Some (None, st)"
    and "waitHostNotInCluster w ctx host st = Some (None, st)"
    and "excludeHost w ctx host status st = Some (None, st)"
    and "includeHost w ctx host status st = Some (None, st)"
    and "reconcileHost w ctx host st = Some (None, st)"
    and "reconcileShard w ctx shard st = (None, st)"
    and "reconcileCluster w ctx cluster st = (None, st)"
    and "reconcileCHIAuxObjectsPreliminary w ctx chi st = (None, st)"
    and "reconcileCHIAuxObjectsFinal w ctx chi st = (None, st)"
  using assms
  by (simp_all add: waitHostInCluster_def waitHostNotInCluster_def excludeHost_def
      includeHost_def reconcileHost_def reconcileShard_def reconcileCluster_def
      reconcileCHIAuxObjectsPreliminary_def reconcileCHIAuxObjectsFinal_def
      poll_cancelled cancelled_configmaps)

lemma cancelled_reconcile:
  assumes "IsContextDone ctx st"
  shows "reconcile w ctx chi st = Some (None, st\<lparr>creator := Some chi\<rparr>)"
proof -
  let ?st = "st\<lparr>creator := Some chi\<rparr>"
  have cancelled: "IsContextDone ctx ?st"
    using assms by (simp add: IsContextDone_def)
  have hosts: "tillError (reconcileHost w ctx) hs ?st = Some (None, ?st)" for hs
    by (rule tillError_skip_at) (rule cancelled_hosts(5) [OF cancelled])
  have shards: "tillError (\<lambda>shard s.
        case reconcileShard w ctx shard s of
          (err, s1) \<Rightarrow>
            if err \<noteq> None then Some (err, s1)
            else tillError (reconcileHost w ctx) (Hosts shard) s1) ss ?st = Some (None, ?st)" for ss
    by (rule tillError_skip_at)
      (simp only: cancelled_hosts(6) [OF cancelled] hosts prod.case if_False simp_thms)
  have clusters: "tillError (\<lambda>cluster s.
        case reconcileCluster w ctx cluster s of
          (err, s1) \<Rightarrow>
            if err \<noteq> None then Some (err, s1)
            else tillError (\<lambda>shard s.
                   case reconcileShard w ctx shard s of
                     (err, s1) \<Rightarrow>
                       if err \<noteq> None then Some (err, s1)
                       else tillError (reconcileHost w ctx) (Hosts shard) s1)
                   (Shards cluster) s1) cs ?st = Some (None, ?st)" for cs
    by (rule tillError_skip_at)
      (simp only: cancelled_hosts(7) [OF cancelled] shards prod.case if_False simp_thms)
  show ?thesis
    unfolding reconcile_def WalkTillError_def Let_def
    by (simp only: cancelled_hosts(8,9) [OF cancelled] clusters prod.case option.case if_False
        not_False_eq_True simp_thms)
qed

lemma cancelled_processItem:
  "IsContextDone ctx st \<Longrightarrow> processItem w ctx it st = Some (None, st)"
  by (simp add: processItem_def)

text \<open>
  C5. When the context is already done at the entry of a helper of the reconcile, the
  helper performs no operation outside the worker, changes no status and no reconcile
  attribute, and returns nil, not an error of the cancellation (a helper without a
  result returns). The helpers are all the functions of the worker that take a context,
  but for \<^verbatim>\<open>updateCHI\<close>, the driver that goes on after the helpers have returned.
  \<^verbatim>\<open>reconcile\<close> assigns the creator of the worker and does nothing else.
  \<^verbatim>\<open>includeHost\<close> and the two waits have no check of their own: they do nothing because
  \<^verbatim>\<open>reconcileCHIConfigMaps\<close> and the poll check the context.
\<close>

theorem cancelled_helpers_do_nothing:
  assumes "IsContextDone ctx st"
  shows "processItem w ctx it st = Some (None, st)
    \<and> reconcile w ctx chi st = Some (None, st\<lparr>creator := Some chi\<rparr>)
    \<and> reconcileCHIAuxObjectsPreliminary w ctx chi st = (None, st)
    \<and> reconcileCHIAuxObjectsFinal w ctx chi st = (None, st)
    \<and> reconcileCHIConfigMaps w ctx chi options update st = (None, st)
    \<and> reconcileCluster w ctx cluster st = (None, st)
    \<and> reconcileShard w ctx shard st = (None, st)
    \<and> reconcileHost w ctx host st = Some (None, st)
    \<and> excludeHost w ctx host status st = Some (None, st)
    \<and> includeHost w ctx host status st = Some (None, st)
    \<and> waitHostInCluster w ctx host st = Some (None, st)
    \<and> waitHostNotInCluster w ctx host st = Some (None, st)
    \<and> finalizeCHI w ctx chi st = (None, st)
    \<and> deleteCHI w ctx chi st = (None, st)
    \<and> deleteTables w ctx host st = (None, st)
    \<and> deleteHost w ctx host st = (None, st)
    \<and> deleteShard w ctx shard st = (None, st)
    \<and> deleteCluster w ctx cluster st = (None, st)
    \<and> updateConfigMap w ctx chi configMap st = (None, st)
    \<and> createConfigMap w ctx chi configMap st = (None, st)
    \<and> reconcileConfigMap w ctx chi configMap update st = (None, st)
    \<and> updateService w ctx chi curService service st = (None, service, st)
    \<and> createService w ctx chi service st = (None, st)
    \<and> reconcileService w ctx chi service st = (None, st)
    \<and> reconcileStatefulSet w ctx statefulSet host st = (None, st)
    \<and> createStatefulSet w ctx statefulSet host st = (None, st)
    \<and> updateStatefulSet w ctx curStatefulSet statefulSet host st = (None, st)
    \<and> reconcilePersistentVolumes w ctx host st = st
    \<and> reconcilePersistentVolumeClaims w ctx host st = (None, st)
    \<and> reconcileResources w ctx pvc template st = (pvc, st)
    \<and> reconcileResourcesList w ctx pvc desiredResourceList st = (pvc, st)
    \<and> reconcileResource w ctx pvc desiredResourceList resourceName st = (pvc, st)"
  by (simp add: cancelled_processItem [OF assms] cancelled_reconcile [OF assms]
      cancelled_hosts [OF assms] cancelled_configmaps [OF assms] cancelled_services [OF assms]
      cancelled_statefulsets [OF assms] cancelled_volumes [OF assms] cancelled_deletes [OF assms])

theorem cancelled_helpers_do_nothing_witness:
  "IsContextDone Cancelled exState
   \<and> processItem exWorker Cancelled exAddCHI exState = Some (None, exState)
   \<and> includeHost exWorker Cancelled (exHost 10 [10, 11]) statefulSetStatusModified exState
       = Some (None, exState)
   \<and> reconcileHost exWorker Cancelled (exHost 10 [10, 11]) exState = Some (None, exState)
   \<and> reconcileService exWorker Cancelled exCHI exNewService exState = (None, exState)"
proof -
  have c: "IsContextDone Cancelled exState"
    by (simp add: Cancelled_def IsContextDone_def)
  show ?thesis
    using cancelled_helpers_do_nothing [OF c, where w = exWorker
        and it = exAddCHI and host = "exHost 10 [10, 11]" and status = statefulSetStatusModified
        and chi = exCHI and service = exNewService]
      c
    by blast
qed

text \<open>The equations that evaluate the model at the concrete inputs.\<close>

lemmas ex_defs = exHead_def exStatefulSet_def exHost_def exCHI_def exService_def
  exPort_def exConfigMap_def exPVC_def exStatus_def exNotFound_def exFailure_def exPlan_def
  exWorker_def exFailingWorker_def exRefusingWorker_def exState_def Cancelled_def Background_def
  exAddCHI_def exAddChit_def

lemmas model_defs = IsContextDone_def call_def emit_def announce_def updateCHIObjectStatus_def
  ensureFinalizer_def updateCHIAfterStamping_def
  updateConfigMap_def createConfigMap_def reconcileConfigMap_def reconcileCHIConfigMaps_def
  updateService_def createService_def reconcileService_def
  reconcileCHIAuxObjectsPreliminary_def reconcileCHIAuxObjectsFinal_def reconcileCluster_def
  reconcileShard_def reconcileHost_def WalkTillError_def reconcile_def normalize_def
  WalkAdded_def WalkModified_def WalkRemoved_def WalkHosts_def stampReconcileAttributes_def
  markUnclear_def updStatus_def updAttrs_def IsStopped_def InArray_def IsNotFound_def
  hostsOfCHI_def hostsOfCluster_def SetAdd_def SetModify_def SetUnclear_def SetMigrate_def
  IsAdd_def IsModify_def NewChiHostReconcileAttributes_def unexpected_def

subsection \<open>The worker loop\<close>

lemma runLoop_queue:
  "runLoop w ctx items q0 st = Some (q, st') \<Longrightarrow>
     q = q0 @ concat (map (\<lambda>it. [QGet (Some it), QForget it, QDone it]) items) @ [QGet None]"
proof (induction items arbitrary: q0 st)
  case Nil
  then show ?case by simp
next
  case (Cons it rest)
  from Cons.prems obtain err st1 where
    step: "processItem w ctx it st = Some (err, st1)"
    by (auto split: option.splits)
  let ?st2 = "case err of None \<Rightarrow> st1 | Some e \<Rightarrow> emit (OpHandleError e) st1"
  have "runLoop w ctx rest (q0 @ [QGet (Some it), QForget it, QDone it]) ?st2 = Some (q, st')"
    using Cons.prems step by (simp add: Let_def)
  from Cons.IH [OF this] show ?case by simp
qed

lemma runLoop_returns:
  "(\<forall>it\<in>set items. \<forall>s. processItem w ctx it s \<noteq> None) \<Longrightarrow> runLoop w ctx items q0 st \<noteq> None"
proof (induction items arbitrary: q0 st)
  case Nil
  then show ?case by simp
next
  case (Cons it rest)
  have "processItem w ctx it st \<noteq> None"
    using Cons.prems by simp
  then obtain err st1 where step: "processItem w ctx it st = Some (err, st1)"
    by (cases "processItem w ctx it st") auto
  show ?case using Cons step by (simp add: Let_def)
qed

lemma finalizeCHI_nil: "fst (finalizeCHI w ctx chi st) = None"
  by (simp add: finalizeCHI_def Let_def split: prod.splits)

text \<open>The rules that follow a definition to its exits.\<close>

lemma returnsNil_exits:
  "returnsNil (Some (None, s))"
  "returnsNil None"
  "fst r = None \<Longrightarrow> returnsNil (Some r)"
  by (auto simp: returnsNil_def split: prod.splits)

lemma returnsNil_If:
  "(c \<Longrightarrow> returnsNil a) \<Longrightarrow> (\<not> c \<Longrightarrow> returnsNil b) \<Longrightarrow> returnsNil (if c then a else b)"
  by simp

lemma returnsNil_Let: "(\<And>v. returnsNil (f v)) \<Longrightarrow> returnsNil (Let x f)"
  by (simp add: Let_def)

lemma returnsNil_prod: "(\<And>a b. returnsNil (f a b)) \<Longrightarrow> returnsNil (case p of (a, b) \<Rightarrow> f a b)"
  by (cases p) simp

lemma returnsNil_option:
  "returnsNil a \<Longrightarrow> (\<And>v. returnsNil (f v)) \<Longrightarrow> returnsNil (case x of None \<Rightarrow> a | Some v \<Rightarrow> f v)"
  by (cases x) simp_all

lemma updateCHIAfterStamping_returnsNil:
  "returnsNil (updateCHIAfterStamping w ctx update actionPlan new' st)"
  unfolding updateCHIAfterStamping_def
  by (intro returnsNil_Let returnsNil_If returnsNil_option returnsNil_prod returnsNil_exits)

lemma updateCHI_returnsNil: "returnsNil (updateCHI w ctx old new st)"
  unfolding updateCHI_def
  by (intro returnsNil_Let returnsNil_If returnsNil_option returnsNil_prod returnsNil_exits
      finalizeCHI_nil updateCHIAfterStamping_returnsNil)

lemma updateCHI_nil:
  "updateCHI w ctx old new st = Some (err, st') \<Longrightarrow> err = None"
  using updateCHI_returnsNil [of w ctx old new st] by (simp add: returnsNil_def)

text \<open>
  C3. When the loop of the worker has run until the shutdown signal, the calls on the
  queue are, for every item that \<^verbatim>\<open>Get\<close> returned, in the order of the items: that
  \<^verbatim>\<open>Get\<close>, then \<^verbatim>\<open>Forget\<close> of the item, then \<^verbatim>\<open>Done\<close> of the item, before the next
  \<^verbatim>\<open>Get\<close>; the last call is the \<^verbatim>\<open>Get\<close> that returned the shutdown signal. This holds
  whatever \<^verbatim>\<open>processItem\<close> returned for the items, nil or an error. The loop reaches the
  shutdown signal whenever \<^verbatim>\<open>processItem\<close> returns for every item.
\<close>

theorem run_queue_discipline:
  "(run w items st = Some (q, st') \<longrightarrow>
      q = concat (map (\<lambda>it. [QGet (Some it), QForget it, QDone it]) items) @ [QGet None])
   \<and> ((\<forall>it\<in>set items. \<forall>s. processItem w Background it s \<noteq> None) \<longrightarrow> run w items st \<noteq> None)"
  using runLoop_queue [of w Background items "[]" st q st']
    runLoop_returns [of items w Background "[]" st]
  by (auto simp: run_def)

theorem run_queue_discipline_witness:
  "map_option fst (run exRefusingWorker [OtherItem, exAddChit] exState) =
     Some [QGet (Some OtherItem), QForget OtherItem, QDone OtherItem,
           QGet (Some exAddChit), QForget exAddChit, QDone exAddChit,
           QGet None]
   \<and> map_option (oplog \<circ> snd) (run exRefusingWorker [OtherItem, exAddChit] exState) =
     Some [OpHandleError (Error False ''unexpected item in the queue - %#v''),
           OpAddChit ''template'', OpHandleError exFailure]"
proof -
  let ?r = "run exRefusingWorker [OtherItem, exAddChit] exState"
  have ops: "map_option (oplog \<circ> snd) ?r =
     Some [OpHandleError (Error False ''unexpected item in the queue - %#v''),
           OpAddChit ''template'', OpHandleError exFailure]"
    by (simp add: run_def processItem_def ex_defs model_defs Let_def)
  then obtain q st' where r: "?r = Some (q, st')"
    by (cases ?r) auto
  from run_queue_discipline [of exRefusingWorker "[OtherItem, exAddChit]" exState q st'] r
  have "q = [QGet (Some OtherItem), QForget OtherItem, QDone OtherItem,
           QGet (Some exAddChit), QForget exAddChit, QDone exAddChit, QGet None]"
    by simp
  then show ?thesis using r ops by simp
qed

subsection \<open>Errors of the processing of an item\<close>

text \<open>
  C4, as amended. Every non-nil error that \<^verbatim>\<open>processItem\<close> returns is passed to the
  runtime error handler before the item is forgotten and done, and the worker never
  enqueues an item again. \<^verbatim>\<open>updateCHI\<close> returns nil whenever it returns: a failing
  reconcile inside it is announced as an event with the status error of the CHI, is not
  returned from \<^verbatim>\<open>processItem\<close> and does not reach the runtime error handler.
\<close>

theorem errors_reach_handler:
  "(processItem w ctx it st = Some (Some e, st1) \<longrightarrow>
      runLoop w ctx (it # rest) q st =
        runLoop w ctx rest (q @ [QGet (Some it), QForget it, QDone it])
          (emit (OpHandleError e) st1))
   \<and> (run w items st = Some (q', st') \<longrightarrow> (\<forall>x. QAddRateLimited x \<notin> set q'))
   \<and> (updateCHI w ctx old new st = Some (err, st'') \<longrightarrow> err = None)"
proof (intro conjI impI)
  assume "processItem w ctx it st = Some (Some e, st1)"
  then show "runLoop w ctx (it # rest) q st =
        runLoop w ctx rest (q @ [QGet (Some it), QForget it, QDone it])
          (emit (OpHandleError e) st1)"
    by simp
next
  assume "run w items st = Some (q', st')"
  then have "q' = concat (map (\<lambda>it. [QGet (Some it), QForget it, QDone it]) items) @ [QGet None]"
    using runLoop_queue [of w Background items "[]" st q' st'] by (simp add: run_def)
  then show "\<forall>x. QAddRateLimited x \<notin> set q'"
    by auto
next
  assume "updateCHI w ctx old new st = Some (err, st'')"
  then show "err = None" by (rule updateCHI_nil)
qed

theorem errors_reach_handler_witness:
  "processItem exRefusingWorker Background exAddChit exState =
     Some (Some exFailure, emit (OpAddChit ''template'') exState)
   \<and> run exRefusingWorker [exAddChit] exState =
     Some ([QGet (Some exAddChit), QForget exAddChit, QDone exAddChit, QGet None],
           emit (OpHandleError exFailure) (emit (OpAddChit ''template'') exState))"
proof -
  have p: "processItem exRefusingWorker Background exAddChit exState =
     Some (Some exFailure, emit (OpAddChit ''template'') exState)"
    by (simp add: processItem_def ex_defs model_defs)
  from errors_reach_handler [of exRefusingWorker Background exAddChit exState exFailure
      "emit (OpAddChit ''template'') exState" "[]" "[]"] p
  have "runLoop exRefusingWorker Background [exAddChit] [] exState =
      runLoop exRefusingWorker Background [] [QGet (Some exAddChit), QForget exAddChit, QDone exAddChit]
        (emit (OpHandleError exFailure) (emit (OpAddChit ''template'') exState))"
    by simp
  then show ?thesis using p by (simp add: run_def)
qed

text \<open>
  C4 as stated fails for a failing reconcile inside \<^verbatim>\<open>updateCHI\<close>. On a platform where
  the creation of a Service fails, the reconcile of the CHI returns that error; the
  processing of the command to add the CHI records the failure as events, returns nil,
  and the loop of the worker calls no error handler.
\<close>

theorem updateCHI_swallows_reconcile_error:
  "map_option fst (reconcile exFailingWorker Background exCHI exState) = Some (Some exFailure)
   \<and> map_option fst (processItem exFailingWorker Background exAddCHI exState) = Some None
   \<and> map_option (oplog \<circ> snd) (processItem exFailingWorker Background exAddCHI exState) =
      Some
        [OpInstallFinalizer 1,
         OpUpdateCHIObjectStatus 1 exStatus False,
         OpAnnounce 1 (Some (eventActionReconcile, eventReasonReconcileStarted))
           [WithStatusAction],
         OpGetService (ObjectMeta.truncate (exService ''chi'' [] [])),
         OpDeleteServiceIfExists ''ns'' ''chi'',
         OpCreateService (exService ''chi'' [] []),
         OpAnnounce 1 (Some (eventActionCreate, eventReasonCreateFailed))
           [WithStatusAction, WithStatusError],
         OpAnnounce 1 (Some (eventActionReconcile, eventReasonReconcileFailed))
           [WithStatusAction, WithStatusError],
         OpAnnounce 1 (Some (eventActionReconcile, eventReasonReconcileFailed))
           [WithStatusError]]
   \<and> map_option fst (run exFailingWorker [exAddCHI] exState) =
      Some [QGet (Some exAddCHI), QForget exAddCHI, QDone exAddCHI, QGet None]
   \<and> map_option (filter isHandleError \<circ> oplog \<circ> snd) (run exFailingWorker [exAddCHI] exState) =
      Some []"
proof -
  have rec: "map_option fst (reconcile exFailingWorker Background exCHI exState)
      = Some (Some exFailure)"
    by (simp add: ex_defs model_defs Let_def)
  have p: "map_option fst (processItem exFailingWorker Background exAddCHI exState) = Some None
   \<and> map_option (oplog \<circ> snd) (processItem exFailingWorker Background exAddCHI exState) =
      Some
        [OpInstallFinalizer 1,
         OpUpdateCHIObjectStatus 1 exStatus False,
         OpAnnounce 1 (Some (eventActionReconcile, eventReasonReconcileStarted))
           [WithStatusAction],
         OpGetService (ObjectMeta.truncate (exService ''chi'' [] [])),
         OpDeleteServiceIfExists ''ns'' ''chi'',
         OpCreateService (exService ''chi'' [] []),
         OpAnnounce 1 (Some (eventActionCreate, eventReasonCreateFailed))
           [WithStatusAction, WithStatusError],
         OpAnnounce 1 (Some (eventActionReconcile, eventReasonReconcileFailed))
           [WithStatusAction, WithStatusError],
         OpAnnounce 1 (Some (eventActionReconcile, eventReasonReconcileFailed))
           [WithStatusError]]"
    by (simp add: processItem_def updateCHI_def ex_defs model_defs Let_def)
  then obtain st1 where p1: "processItem exFailingWorker Background exAddCHI exState = Some (None, st1)"
    and ops: "oplog st1 =
        [OpInstallFinalizer 1,
         OpUpdateCHIObjectStatus 1 exStatus False,
         OpAnnounce 1 (Some (eventActionReconcile, eventReasonReconcileStarted))
           [WithStatusAction],
         OpGetService (ObjectMeta.truncate (exService ''chi'' [] [])),
         OpDeleteServiceIfExists ''ns'' ''chi'',
         OpCreateService (exService ''chi'' [] []),
         OpAnnounce 1 (Some (eventActionCreate, eventReasonCreateFailed))
           [WithStatusAction, WithStatusError],
         OpAnnounce 1 (Some (eventActionReconcile, eventReasonReconcileFailed))
           [WithStatusAction, WithStatusError],
         OpAnnounce 1 (Some (eventActionReconcile, eventReasonReconcileFailed))
           [WithStatusError]]"
    by (cases "processItem exFailingWorker Background exAddCHI exState") auto
  have "map_option fst (run exFailingWorker [exAddCHI] exState) =
      Some [QGet (Some exAddCHI), QForget exAddCHI, QDone exAddCHI, QGet None]
   \<and> map_option (filter isHandleError \<circ> oplog \<circ> snd) (run exFailingWorker [exAddCHI] exState) =
      Some []"
    by (simp add: run_def p1 ops isHandleError_def)
  then show ?thesis using rec p by blast
qed

end
